theory Spec2Isabelle
  imports Main "HOL-Library.Sublist"
begin

section \<open>Data model\<close>

text \<open>
  The table \<open>profiles\<close> as the migration \<open>20250930132131_mellow_forest.sql\<close> and
  \<open>src/lib/auth.js\<close> use it. A uuid is an opaque key (a natural number here), a
  timestamp is a reading of the clock, and a nullable column is an \<open>option\<close>.
  The column \<open>id\<close> is written \<open>id'\<close>.

  A string of the client or of the table is a list of UTF-16 code units, as a
  JavaScript string is; \<open>lit\<close> turns an ASCII literal into one. The texts of the error
  objects, which are only compared and searched, stay Isabelle strings.
\<close>

type_synonym uuid = nat
type_synonym timestamp = nat
type_synonym ustring = "nat list"

definition lit :: "string \<Rightarrow> ustring" where
  "lit s = map of_char s"

datatype user_role = User | Org_admin | Manager | Super_admin

record profile =
  id' :: uuid
  email :: ustring
  first_name :: ustring
  last_name :: ustring
  role :: user_role
  organization_id :: "uuid option"
  email_verified :: bool
  is_active :: bool
  last_login :: "timestamp option"
  created_at :: timestamp
  updated_at :: timestamp

text \<open>
  A row of \<open>auth.users\<close>, which is also the \<open>user\<close> object the client library hands
  to the facade: \<open>NEW.id\<close>, \<open>NEW.email\<close>, \<open>NEW.email_confirmed_at\<close> and the keys
  \<open>first_name\<close>, \<open>last_name\<close> of \<open>NEW.raw_user_meta_data\<close>.
\<close>

record auth_user =
  user_id :: uuid
  user_email :: ustring
  user_email_confirmed_at :: "timestamp option"
  user_first_name :: "ustring option"
  user_last_name :: "ustring option"

text \<open>The literal that the trigger, the bootstrap block and the facade all compare with.\<close>

definition superadmin_email :: ustring where
  "superadmin_email = lit ''superadmin@workflowgene.cloud''"

text \<open>
  The credential a statement runs under: the roles \<open>anon\<close>, \<open>authenticated\<close> and
  \<open>service_role\<close> of the platform. \<open>auth.uid()\<close> is the session's user, or NULL.
\<close>

datatype actor = Anon | Authenticated uuid | Service_role

fun auth_uid :: "actor \<Rightarrow> uuid option" where
  "auth_uid (Authenticated uid) = Some uid"
| "auth_uid a = None"

section \<open>Errors of the store\<close>

text \<open>
  Errors are the objects the client library returns: a \<open>code\<close> and a \<open>message\<close>.
  The four below are the ones the store of this model raises: Postgres' unique
  violation (to whose message Postgres appends the constraint's name, declared outside
  the sources), its row-level-security violation, its refusal to expand a policy that
  reads the table it guards, and PostgREST's answer to \<open>.single()\<close> when the result
  does not hold exactly one row.
\<close>

record api_error =
  code :: string
  message :: string

definition unique_violation :: api_error where
  "unique_violation =
     \<lparr>code = ''23505'', message = ''duplicate key value violates unique constraint''\<rparr>"

definition rls_violation :: api_error where
  "rls_violation =
     \<lparr>code = ''42501'',
      message = ''new row violates row-level security policy for table ''
                @ [CHR 0x22] @ ''profiles'' @ [CHR 0x22]\<rparr>"

definition policy_recursion :: api_error where
  "policy_recursion =
     \<lparr>code = ''42P17'',
      message = ''infinite recursion detected in policy for relation ''
                @ [CHR 0x22] @ ''profiles'' @ [CHR 0x22]\<rparr>"

definition not_single :: api_error where
  "not_single =
     \<lparr>code = ''PGRST116'', message = ''JSON object requested, multiple (or no) rows returned''\<rparr>"

section \<open>Row-level security policies of the migration\<close>

text \<open>SQL equality: a comparison with NULL is not true.\<close>

fun sql_eq :: "'a option \<Rightarrow> 'a option \<Rightarrow> bool" where
  "sql_eq (Some x) (Some y) = (x = y)"
| "sql_eq _ _ = False"

text \<open>
  The \<open>USING\<close> expression of each \<open>CREATE POLICY\<close>, lines 38-82, as a predicate of
  \<open>auth.uid()\<close>, of the rows a sub-select \<open>FROM profiles\<close> returns, and of the row.
\<close>

definition profiles_select_own :: "uuid option \<Rightarrow> profile \<Rightarrow> bool" where
  "profiles_select_own uid r = sql_eq uid (Some (id' r))"

definition profiles_update_own :: "uuid option \<Rightarrow> profile \<Rightarrow> bool" where
  "profiles_update_own uid r = sql_eq uid (Some (id' r))"

definition profiles_service_role_all :: "profile \<Rightarrow> bool" where
  "profiles_service_role_all r = True"

definition profiles_super_admin_select_all ::
  "uuid option \<Rightarrow> profile list \<Rightarrow> profile \<Rightarrow> bool" where
  "profiles_super_admin_select_all uid tbl r =
     list_ex (\<lambda>p. sql_eq (Some (id' p)) uid \<and> role p = Super_admin) tbl"

definition profiles_super_admin_update_all ::
  "uuid option \<Rightarrow> profile list \<Rightarrow> profile \<Rightarrow> bool" where
  "profiles_super_admin_update_all uid tbl r =
     list_ex (\<lambda>p. sql_eq (Some (id' p)) uid \<and> role p = Super_admin) tbl"

definition profiles_org_admin_select_org ::
  "uuid option \<Rightarrow> profile list \<Rightarrow> profile \<Rightarrow> bool" where
  "profiles_org_admin_select_org uid tbl r =
     list_ex (\<lambda>p. sql_eq (Some (id' p)) uid \<and> (role p = Org_admin \<or> role p = Manager)
                  \<and> sql_eq (organization_id p) (organization_id r)) tbl"

text \<open>
  The six policies with the command (\<open>FOR\<close>) and the role (\<open>TO\<close>) each is created for,
  and whether its expression holds a sub-select \<open>FROM profiles\<close>, the table it guards.
\<close>

datatype command = Select | Insert | Update

datatype policy =
    Profiles_select_own
  | Profiles_update_own
  | Profiles_service_role_all
  | Profiles_super_admin_select_all
  | Profiles_super_admin_update_all
  | Profiles_org_admin_select_org

definition policies :: "policy list" where
  "policies =
     [Profiles_select_own, Profiles_update_own, Profiles_service_role_all,
      Profiles_super_admin_select_all, Profiles_super_admin_update_all,
      Profiles_org_admin_select_org]"

fun policy_for :: "policy \<Rightarrow> command \<Rightarrow> bool" where
  "policy_for Profiles_select_own c = (c = Select)"
| "policy_for Profiles_update_own c = (c = Update)"
| "policy_for Profiles_service_role_all c = True"
| "policy_for Profiles_super_admin_select_all c = (c = Select)"
| "policy_for Profiles_super_admin_update_all c = (c = Update)"
| "policy_for Profiles_org_admin_select_org c = (c = Select)"

fun policy_to :: "policy \<Rightarrow> actor \<Rightarrow> bool" where
  "policy_to Profiles_service_role_all a = (a = Service_role)"
| "policy_to p (Authenticated uid) = True"
| "policy_to p a = False"

fun queries_profiles :: "policy \<Rightarrow> bool" where
  "queries_profiles Profiles_super_admin_select_all = True"
| "queries_profiles Profiles_super_admin_update_all = True"
| "queries_profiles Profiles_org_admin_select_org = True"
| "queries_profiles p = False"

text \<open>
  None of the policies for \<open>authenticated\<close> has a \<open>WITH CHECK\<close> clause, so its \<open>USING\<close>
  expression is also the check on a written row; \<open>profiles_service_role_all\<close> has
  \<open>WITH CHECK (true)\<close>, which is its \<open>USING\<close> expression.
\<close>

fun policy_using :: "policy \<Rightarrow> uuid option \<Rightarrow> profile list \<Rightarrow> profile \<Rightarrow> bool" where
  "policy_using Profiles_select_own uid tbl r = profiles_select_own uid r"
| "policy_using Profiles_update_own uid tbl r = profiles_update_own uid r"
| "policy_using Profiles_service_role_all uid tbl r = profiles_service_role_all r"
| "policy_using Profiles_super_admin_select_all uid tbl r =
     profiles_super_admin_select_all uid tbl r"
| "policy_using Profiles_super_admin_update_all uid tbl r =
     profiles_super_admin_update_all uid tbl r"
| "policy_using Profiles_org_admin_select_org uid tbl r =
     profiles_org_admin_select_org uid tbl r"

text \<open>
  A statement expands the policies of its commands that are created for its role.
  Permissive policies are combined with OR, and a role without a policy for a command
  is denied. When one of the expanded policies reads \<open>profiles\<close>, that read needs the
  policies of \<open>profiles\<close> again: Postgres refuses the statement with 42P17 before it
  looks at any row.
\<close>

definition applicable :: "command \<Rightarrow> actor \<Rightarrow> policy list" where
  "applicable c a = filter (\<lambda>p. policy_for p c \<and> policy_to p a) policies"

definition recursion :: "command list \<Rightarrow> actor \<Rightarrow> bool" where
  "recursion cs a = list_ex (\<lambda>c. list_ex queries_profiles (applicable c a)) cs"

definition allowed :: "command \<Rightarrow> actor \<Rightarrow> profile list \<Rightarrow> profile \<Rightarrow> bool" where
  "allowed c a tbl r = list_ex (\<lambda>p. policy_using p (auth_uid a) tbl r) (applicable c a)"

section \<open>The store\<close>

text \<open>
  What the database holds beside this migration and is not in the sources: the column
  default of \<open>is_active\<close>, and INSERT policies on \<open>profiles\<close> for the roles \<open>anon\<close> and
  \<open>authenticated\<close>. Both are parameters; the migration itself creates no INSERT policy
  for these roles.
\<close>

record store_cfg =
  is_active_default :: bool
  insert_policy :: "actor \<Rightarrow> profile \<Rightarrow> bool"

text \<open>
  Modelled from the spec: the \<open>CREATE TABLE profiles\<close> statement is not in the sources;
  the persisted schema of the specification declares \<open>id\<close> the primary key and \<open>email\<close>
  unique. A statement commits when the table it leaves satisfies both.
\<close>

definition constraints_ok :: "profile list \<Rightarrow> bool" where
  "constraints_ok tbl = (distinct (map id' tbl) \<and> distinct (map email tbl))"

definition commit :: "profile list \<Rightarrow> api_error + profile list" where
  "commit tbl' = (if constraints_ok tbl' then Inr tbl' else Inl unique_violation)"

subsection \<open>Statements run with the owner's rights\<close>

text \<open>
  The trigger function is \<open>SECURITY DEFINER\<close> and the migration runs as the owner of
  the table: their statements are not subject to the policies.
\<close>

definition sql_insert :: "profile \<Rightarrow> profile list \<Rightarrow> api_error + profile list" where
  "sql_insert r tbl = commit (tbl @ [r])"

definition sql_update ::
  "(profile \<Rightarrow> bool) \<Rightarrow> (profile \<Rightarrow> profile) \<Rightarrow> profile list \<Rightarrow> api_error + profile list" where
  "sql_update P f tbl = commit (map (\<lambda>p. if P p then f p else p) tbl)"

text \<open>\<open>INSERT ... ON CONFLICT (id) DO UPDATE SET ...\<close>, the \<open>SET\<close> list being \<open>f\<close>.\<close>

definition sql_insert_on_conflict_id ::
  "profile \<Rightarrow> (profile \<Rightarrow> profile) \<Rightarrow> profile list \<Rightarrow> api_error + profile list" where
  "sql_insert_on_conflict_id r f tbl =
     (if list_ex (\<lambda>p. id' p = id' r) tbl
      then sql_update (\<lambda>p. id' p = id' r) f tbl
      else sql_insert r tbl)"

subsection \<open>Statements run through row-level security\<close>

text \<open>
  The client's statements. A SELECT expands the SELECT policies; a row that fails them
  is left out of the result, and nothing is raised for it.
\<close>

definition rls_select ::
  "actor \<Rightarrow> (profile \<Rightarrow> bool) \<Rightarrow> profile list \<Rightarrow> api_error + profile list" where
  "rls_select a P tbl =
     (if recursion [Select] a then Inl policy_recursion
      else Inr (filter (\<lambda>r. allowed Select a tbl r \<and> P r) tbl))"

text \<open>
  An UPDATE with a \<open>WHERE\<close> clause expands the UPDATE and the SELECT policies. It
  touches the rows that match and pass both; a new row that fails the check aborts
  the statement. The result is the rows written (what \<open>.select()\<close> returns) and the
  new table.
\<close>

definition rls_update ::
  "actor \<Rightarrow> (profile \<Rightarrow> bool) \<Rightarrow> (profile \<Rightarrow> profile) \<Rightarrow> profile list
     \<Rightarrow> api_error + (profile list \<times> profile list)" where
  "rls_update a P f tbl =
     (if recursion [Update, Select] a then Inl policy_recursion
      else (let hit = (\<lambda>r. P r \<and> allowed Update a tbl r \<and> allowed Select a tbl r) in
        if list_ex (\<lambda>r. hit r \<and> \<not> allowed Update a tbl (f r)) tbl then Inl rls_violation
        else (case sql_update hit f tbl of
                Inl e \<Rightarrow> Inl e
              | Inr tbl' \<Rightarrow> Inr (map f (filter hit tbl), tbl'))))"

text \<open>
  A plain INSERT expands the INSERT policies only: those of the migration created
  \<open>FOR ALL\<close>, and the ones the parameter stands for.
\<close>

definition insert_check :: "store_cfg \<Rightarrow> actor \<Rightarrow> profile list \<Rightarrow> profile \<Rightarrow> bool" where
  "insert_check cfg a tbl r = (allowed Insert a tbl r \<or> insert_policy cfg a r)"

definition rls_insert ::
  "store_cfg \<Rightarrow> actor \<Rightarrow> profile \<Rightarrow> profile list \<Rightarrow> api_error + profile list" where
  "rls_insert cfg a r tbl =
     (if recursion [Insert] a then Inl policy_recursion
      else if insert_check cfg a tbl r then sql_insert r tbl
      else Inl rls_violation)"

text \<open>
  The client's \<open>.upsert(row, {onConflict: 'id'})\<close>: an \<open>INSERT ... ON CONFLICT (id) DO
  UPDATE\<close> that sets every column of the payload (\<open>f\<close>). It expands the INSERT, the
  UPDATE and the SELECT policies, whichever path it takes. The proposed row must pass
  the INSERT check, and on the conflict path the existing row must pass \<open>USING\<close> of
  UPDATE and of SELECT, and the new row the check.
\<close>

definition rls_upsert ::
  "store_cfg \<Rightarrow> actor \<Rightarrow> profile \<Rightarrow> (profile \<Rightarrow> profile) \<Rightarrow> profile list
     \<Rightarrow> api_error + profile list" where
  "rls_upsert cfg a r f tbl =
     (if recursion [Insert, Update, Select] a then Inl policy_recursion
      else if \<not> insert_check cfg a tbl r then Inl rls_violation
      else if list_ex (\<lambda>p. id' p = id' r
                \<and> \<not> (allowed Update a tbl p \<and> allowed Select a tbl p
                      \<and> allowed Update a tbl (f p))) tbl
      then Inl rls_violation
      else sql_insert_on_conflict_id r f tbl)"

text \<open>\<open>.single()\<close> and \<open>.maybeSingle()\<close> on the outcome of a query.\<close>

fun single' :: "api_error + profile list \<Rightarrow> api_error + profile" where
  "single' (Inl e) = Inl e"
| "single' (Inr [r]) = Inr r"
| "single' (Inr rows) = Inl not_single"

fun maybeSingle :: "api_error + profile list \<Rightarrow> api_error + profile option" where
  "maybeSingle (Inl e) = Inl e"
| "maybeSingle (Inr []) = Inr None"
| "maybeSingle (Inr [r]) = Inr (Some r)"
| "maybeSingle (Inr rows) = Inl not_single"

section \<open>The migration: trigger function and bootstrap block\<close>

text \<open>Lines 91-97 of the migration: the role and organization of the new row.\<close>

definition handle_new_user_role :: "auth_user \<Rightarrow> user_role \<times> uuid option" where
  "handle_new_user_role NEW =
     (if user_email NEW = superadmin_email then (Super_admin, None) else (User, None))"

definition coalesce :: "'a option \<Rightarrow> 'a \<Rightarrow> 'a" where
  "coalesce v d = (case v of None \<Rightarrow> d | Some s \<Rightarrow> s)"

definition handle_new_user_values :: "store_cfg \<Rightarrow> auth_user \<Rightarrow> timestamp \<Rightarrow> profile" where
  "handle_new_user_values cfg NEW now =
     (let (user_role, org_id) = handle_new_user_role NEW in
      \<lparr>id' = user_id NEW, email = user_email NEW,
       first_name = coalesce (user_first_name NEW) [],
       last_name = coalesce (user_last_name NEW) [],
       role = user_role, organization_id = org_id,
       email_verified = (user_email_confirmed_at NEW \<noteq> None),
       is_active = is_active_default cfg, last_login = None,
       created_at = now, updated_at = now\<rparr>)"

definition handle_new_user_conflict :: "auth_user \<Rightarrow> timestamp \<Rightarrow> profile \<Rightarrow> profile" where
  "handle_new_user_conflict NEW now p =
     p\<lparr>email := user_email NEW,
       email_verified := (user_email_confirmed_at NEW \<noteq> None),
       updated_at := now\<rparr>"

text \<open>
  The trigger returns \<open>NEW\<close> (\<open>Inr\<close>) or aborts the statement on \<open>auth.users\<close> with an
  error (\<open>Inl\<close>). Its handler \<open>WHEN OTHERS\<close> turns an error of the insert into a warning.
\<close>

definition handle_new_user ::
  "store_cfg \<Rightarrow> auth_user \<Rightarrow> timestamp \<Rightarrow> profile list
     \<Rightarrow> api_error + (auth_user \<times> profile list)" where
  "handle_new_user cfg NEW now tbl =
     (case sql_insert_on_conflict_id (handle_new_user_values cfg NEW now)
             (handle_new_user_conflict NEW now) tbl of
        Inr tbl' \<Rightarrow> Inr (NEW, tbl')
      | Inl e \<Rightarrow> Inr (NEW, tbl))"

text \<open>The \<open>DO\<close> block, lines 138-190.\<close>

definition superadmin_values :: "auth_user \<Rightarrow> timestamp \<Rightarrow> profile" where
  "superadmin_values u now =
     \<lparr>id' = user_id u, email = user_email u, first_name = lit ''Super'', last_name = lit ''Admin'',
      role = Super_admin, organization_id = None, email_verified = True, is_active = True,
      last_login = None, created_at = now, updated_at = now\<rparr>"

definition superadmin_conflict :: "timestamp \<Rightarrow> profile \<Rightarrow> profile" where
  "superadmin_conflict now p =
     p\<lparr>role := Super_admin, organization_id := None, email_verified := True,
       first_name := lit ''Super'', last_name := lit ''Admin'', updated_at := now\<rparr>"

definition superadmin_update :: "timestamp \<Rightarrow> profile \<Rightarrow> profile" where
  "superadmin_update now p =
     p\<lparr>role := Super_admin, organization_id := None, email_verified := True,
       first_name := lit ''Super'', last_name := lit ''Admin'', is_active := True,
       updated_at := now\<rparr>"

fun insert_select :: "auth_user list \<Rightarrow> timestamp \<Rightarrow> profile list \<Rightarrow> api_error + profile list" where
  "insert_select [] now tbl = Inr tbl"
| "insert_select (u # us) now tbl =
     (case sql_insert_on_conflict_id (superadmin_values u now) (superadmin_conflict now) tbl of
        Inl e \<Rightarrow> Inl e
      | Inr tbl' \<Rightarrow> insert_select us now tbl')"

definition bootstrap_block ::
  "auth_user list \<Rightarrow> timestamp \<Rightarrow> profile list \<Rightarrow> api_error + profile list" where
  "bootstrap_block users now tbl =
     (if \<not> list_ex (\<lambda>p. email p = superadmin_email) tbl
      then insert_select (filter (\<lambda>u. user_email u = superadmin_email) users) now tbl
      else sql_update (\<lambda>p. email p = superadmin_email) (superadmin_update now) tbl)"


section \<open>The client facade: \<open>src/lib/supabase.js\<close> and \<open>src/lib/auth.js\<close>\<close>

text \<open>
  A call of the client library is awaited inside \<open>try\<close>: it throws (\<open>Thrown\<close>, with
  the message of the exception), or resolves to \<open>{data, error}\<close> with an error
  (\<open>Failed\<close>) or without (\<open>Ok\<close>). The replies of the authentication service and of
  the table \<open>organizations\<close> are inputs (so the foreign key of \<open>organization_id\<close> is
  not checked); the calls on \<open>profiles\<close> are computed by the store above. A facade
  function returns a value or raises to its caller.
\<close>

datatype 'a reply = Thrown string | Failed api_error | Ok 'a

datatype 'a js = Returned 'a | Raised string

record 'a result =
  success :: bool
  error :: "string option"
  data :: "'a option"

definition failure :: "string \<Rightarrow> 'a result" where
  "failure m = \<lparr>success = False, error = Some m, data = None\<rparr>"

definition succeeded :: "'a \<Rightarrow> 'a result" where
  "succeeded d = \<lparr>success = True, error = None, data = Some d\<rparr>"

text \<open>What \<open>auth.signUp\<close> and \<open>auth.signInWithPassword\<close> resolve to.\<close>

record auth_data =
  data_user :: "auth_user option"
  data_session :: bool

text \<open>The credential of the calls that follow: the session's user, or \<open>anon\<close>.\<close>

definition session_actor :: "auth_data \<Rightarrow> actor" where
  "session_actor d =
     (case data_user d of
        Some u \<Rightarrow> if data_session d then Authenticated (user_id u) else Anon
      | None \<Rightarrow> Anon)"

text \<open>
  JavaScript's \<open>a || b\<close> on strings, \<open>String.prototype.includes\<close> and
  \<open>String.prototype.trim\<close>, which strips the white space and the line terminators of
  ECMAScript at both ends: U+0009 to U+000D, U+0020, U+00A0, U+1680, U+2000 to U+200A,
  U+2028, U+2029, U+202F, U+205F, U+3000 and U+FEFF.
\<close>

definition or_else :: "'a list \<Rightarrow> 'a list \<Rightarrow> 'a list" where
  "or_else a b = (if a = [] then b else a)"

fun includes' :: "string \<Rightarrow> string \<Rightarrow> bool" where
  "includes' [] n = (n = [])"
| "includes' (c # cs) n = (prefix n (c # cs) \<or> includes' cs n)"

definition is_space :: "nat \<Rightarrow> bool" where
  "is_space c =
     (c = 0x0009 \<or> c = 0x000A \<or> c = 0x000B \<or> c = 0x000C \<or> c = 0x000D \<or> c = 0x0020
      \<or> c = 0x00A0 \<or> c = 0x1680 \<or> (0x2000 \<le> c \<and> c \<le> 0x200A) \<or> c = 0x2028
      \<or> c = 0x2029 \<or> c = 0x202F \<or> c = 0x205F \<or> c = 0x3000 \<or> c = 0xFEFF)"

definition trim :: "ustring \<Rightarrow> ustring" where
  "trim s = rev (dropWhile is_space (rev (dropWhile is_space s)))"

record env =
  supabaseUrl :: "string option"
  supabaseAnonKey :: "string option"

definition isSupabaseConfigured :: "env \<Rightarrow> bool" where
  "isSupabaseConfigured e =
     (case (supabaseUrl e, supabaseAnonKey e) of
        (Some url, Some key) \<Rightarrow>
           url \<noteq> [] \<and> key \<noteq> [] \<and> url \<noteq> ''https://placeholder.supabase.co''
           \<and> key \<noteq> ''placeholder-key''
      | _ \<Rightarrow> False)"

subsection \<open>getCurrentUser, getCurrentProfile\<close>

text \<open>The reply of \<open>auth.getSession\<close> carries \<open>session?.user\<close>.\<close>

definition getCurrentUser :: "env \<Rightarrow> auth_user option reply \<Rightarrow> auth_user option" where
  "getCurrentUser e session =
     (if \<not> isSupabaseConfigured e then None
      else (case session of Thrown m \<Rightarrow> None | Failed err \<Rightarrow> None | Ok u \<Rightarrow> u))"

text \<open>The query \<open>.from('profiles').select(...).eq('id', x).single()\<close>.\<close>

definition select_by_id :: "actor \<Rightarrow> uuid \<Rightarrow> profile list \<Rightarrow> api_error + profile" where
  "select_by_id a x tbl = single' (rls_select a (\<lambda>p. id' p = x) tbl)"

definition getCurrentProfile_insert :: "store_cfg \<Rightarrow> auth_user \<Rightarrow> timestamp \<Rightarrow> profile" where
  "getCurrentProfile_insert cfg user now =
     \<lparr>id' = user_id user, email = user_email user,
      first_name = or_else (coalesce (user_first_name user) []) [],
      last_name = or_else (coalesce (user_last_name user) []) [],
      role = (if user_email user = superadmin_email then Super_admin else User),
      organization_id = None,
      email_verified = (user_email_confirmed_at user \<noteq> None),
      is_active = is_active_default cfg, last_login = None,
      created_at = now, updated_at = now\<rparr>"

definition getCurrentProfile ::
  "store_cfg \<Rightarrow> env \<Rightarrow> auth_user option reply \<Rightarrow> timestamp \<Rightarrow> profile list
     \<Rightarrow> profile option \<times> profile list" where
  "getCurrentProfile cfg e session now tbl =
     (if \<not> isSupabaseConfigured e then (None, tbl)
      else (case getCurrentUser e session of
        None \<Rightarrow> (None, tbl)
      | Some user \<Rightarrow>
         (let a = Authenticated (user_id user) in
          case select_by_id a (user_id user) tbl of
            Inr d \<Rightarrow> (Some d, tbl)
          | Inl err \<Rightarrow>
              if code err = ''PGRST116'' then
                (case rls_insert cfg a (getCurrentProfile_insert cfg user now) tbl of
                   Inl insertError \<Rightarrow> (None, tbl)
                 | Inr tbl' \<Rightarrow>
                     (case select_by_id a (user_id user) tbl' of
                        Inl fetchError \<Rightarrow> (None, tbl')
                      | Inr newProfile \<Rightarrow> (Some newProfile, tbl')))
              else (None, tbl))))"

subsection \<open>signIn\<close>

definition signIn ::
  "env \<Rightarrow> ustring \<Rightarrow> ustring \<Rightarrow> auth_data reply \<Rightarrow> timestamp \<Rightarrow> profile list
     \<Rightarrow> auth_data result js \<times> profile list" where
  "signIn e email_arg password auth now tbl =
     (if \<not> isSupabaseConfigured e
      then (Returned (failure
        ''Authentication service not configured. Please check your Supabase configuration.''), tbl)
      else (case auth of
        Thrown m \<Rightarrow> (Returned (failure m), tbl)
      | Failed err \<Rightarrow>
          (Returned (failure
            (if includes' (message err) ''Database error granting user''
             then ''Database connection issue. Please try again later or contact support if the problem persists.''
             else if includes' (message err) ''Invalid login credentials''
             then ''Invalid email or password. Please check your credentials and try again.''
             else or_else (message err) ''Login failed. Please try again.'')), tbl)
      | Ok d \<Rightarrow>
          (case data_user d of
             None \<Rightarrow> (Returned (succeeded d), tbl)
           | Some u \<Rightarrow>
               (case rls_update (session_actor d) (\<lambda>p. id' p = user_id u)
                       (\<lambda>p. p\<lparr>last_login := Some now, updated_at := now\<rparr>) tbl of
                  Inl updateError \<Rightarrow> (Returned (succeeded d), tbl)
                | Inr (rows, tbl') \<Rightarrow> (Returned (succeeded d), tbl')))))"

subsection \<open>signUp\<close>

record signUp_args =
  arg_email :: ustring
  arg_password :: ustring
  firstName :: ustring
  lastName :: ustring
  organizationName :: "ustring option"
  industry :: "ustring option"
  companySize :: "ustring option"

text \<open>
  Lines 204-228: the organization is inserted when a name is given, and its id is kept
  when the insert neither returned an error nor threw.
\<close>

definition signUp_organizationId :: "ustring option \<Rightarrow> uuid reply \<Rightarrow> uuid option" where
  "signUp_organizationId name org =
     (case name of
        None \<Rightarrow> None
      | Some n \<Rightarrow>
          if trim n = [] then None
          else (case org of Ok orgId \<Rightarrow> Some orgId | Failed orgError \<Rightarrow> None
                | Thrown m \<Rightarrow> None))"

text \<open>Lines 233-239.\<close>

definition signUp_role :: "ustring \<Rightarrow> uuid option \<Rightarrow> user_role \<times> uuid option" where
  "signUp_role email_arg organizationId =
     (if trim email_arg = superadmin_email then (Super_admin, None)
      else if organizationId \<noteq> None then (Org_admin, organizationId)
      else (User, organizationId))"

text \<open>
  Lines 243-253: the payload of the upsert. The columns it does not name take their
  defaults on insert and keep their value on conflict (\<open>signUp_merge\<close>).
\<close>

definition signUp_payload ::
  "store_cfg \<Rightarrow> signUp_args \<Rightarrow> auth_user \<Rightarrow> uuid option \<Rightarrow> timestamp \<Rightarrow> profile" where
  "signUp_payload cfg args u organizationId now =
     (let (userRole, organizationId') = signUp_role (arg_email args) organizationId in
      \<lparr>id' = user_id u, email = trim (arg_email args),
       first_name = firstName args, last_name = lastName args,
       role = userRole, organization_id = organizationId',
       email_verified = (user_email_confirmed_at u \<noteq> None),
       is_active = is_active_default cfg, last_login = None,
       created_at = now, updated_at = now\<rparr>)"

definition signUp_merge :: "profile \<Rightarrow> profile \<Rightarrow> profile" where
  "signUp_merge x p =
     p\<lparr>id' := id' x, email := email x, first_name := first_name x,
       last_name := last_name x, organization_id := organization_id x, role := role x,
       email_verified := email_verified x, created_at := created_at x,
       updated_at := updated_at x\<rparr>"

definition signUp ::
  "store_cfg \<Rightarrow> env \<Rightarrow> signUp_args \<Rightarrow> auth_data reply \<Rightarrow> uuid reply \<Rightarrow> timestamp
     \<Rightarrow> profile list \<Rightarrow> auth_data result js \<times> profile list" where
  "signUp cfg e args auth org now tbl =
     (if \<not> isSupabaseConfigured e
      then (Returned (failure
        ''Authentication service not configured. Please check your Supabase configuration.''), tbl)
      else (case auth of
        Thrown m \<Rightarrow> (Returned (failure m), tbl)
      | Failed authError \<Rightarrow>
          (Returned (failure
            (if includes' (message authError) ''Database error''
             then ''Database connection issue. Please try again later or contact support if the problem persists.''
             else or_else (message authError) ''Signup failed. Please try again.'')), tbl)
      | Ok authData \<Rightarrow>
          (case data_user authData of
             None \<Rightarrow> (Returned (succeeded authData), tbl)
           | Some u \<Rightarrow>
               (let organizationId = signUp_organizationId (organizationName args) org;
                    row = signUp_payload cfg args u organizationId now
                in case rls_upsert cfg (session_actor authData) row (signUp_merge row) tbl of
                     Inl profileError \<Rightarrow> (Returned (succeeded authData), tbl)
                   | Inr tbl' \<Rightarrow> (Returned (succeeded authData), tbl')))))"

subsection \<open>signOut, resetPassword, updatePassword\<close>

definition signOut :: "unit reply \<Rightarrow> unit result js" where
  "signOut r =
     (case r of
        Thrown m \<Rightarrow> Returned (failure m)
      | Failed err \<Rightarrow> Returned (failure (message err))
      | Ok u \<Rightarrow> Returned \<lparr>success = True, error = None, data = None\<rparr>)"

definition resetPassword :: "env \<Rightarrow> ustring \<Rightarrow> unit reply \<Rightarrow> unit result js" where
  "resetPassword e email_arg r =
     (if \<not> isSupabaseConfigured e then Raised ''Authentication service not configured''
      else (case r of
        Thrown m \<Rightarrow> Returned (failure m)
      | Failed err \<Rightarrow> Returned (failure (message err))
      | Ok d \<Rightarrow> Returned (succeeded d)))"

definition updatePassword :: "ustring \<Rightarrow> auth_data reply \<Rightarrow> auth_data result js" where
  "updatePassword newPassword r =
     (case r of
        Thrown m \<Rightarrow> Returned (failure m)
      | Failed err \<Rightarrow> Returned (failure (message err))
      | Ok d \<Rightarrow> Returned (succeeded d))"

subsection \<open>updateProfile\<close>

text \<open>
  \<open>profileData\<close> is an object of the caller: for each column, absent or a value. The
  facade spreads it into the \<open>SET\<close> list and overrides \<open>updated_at\<close>.
\<close>

record patch =
  set_id :: "uuid option"
  set_email :: "ustring option"
  set_first_name :: "ustring option"
  set_last_name :: "ustring option"
  set_role :: "user_role option"
  set_organization_id :: "uuid option option"
  set_email_verified :: "bool option"
  set_is_active :: "bool option"
  set_last_login :: "timestamp option option"
  set_created_at :: "timestamp option"
  set_updated_at :: "timestamp option"

definition col :: "'a option \<Rightarrow> 'a \<Rightarrow> 'a" where
  "col v old = (case v of None \<Rightarrow> old | Some x \<Rightarrow> x)"

definition apply_patch :: "patch \<Rightarrow> profile \<Rightarrow> profile" where
  "apply_patch d p =
     \<lparr>id' = col (set_id d) (id' p), email = col (set_email d) (email p),
      first_name = col (set_first_name d) (first_name p),
      last_name = col (set_last_name d) (last_name p),
      role = col (set_role d) (role p),
      organization_id = col (set_organization_id d) (organization_id p),
      email_verified = col (set_email_verified d) (email_verified p),
      is_active = col (set_is_active d) (is_active p),
      last_login = col (set_last_login d) (last_login p),
      created_at = col (set_created_at d) (created_at p),
      updated_at = col (set_updated_at d) (updated_at p)\<rparr>"

definition updateProfile ::
  "env \<Rightarrow> auth_user option reply \<Rightarrow> patch \<Rightarrow> timestamp \<Rightarrow> profile list
     \<Rightarrow> profile result js \<times> profile list" where
  "updateProfile e session profileData now tbl =
     (case getCurrentUser e session of
        None \<Rightarrow> (Returned (failure ''No authenticated user''), tbl)
      | Some user \<Rightarrow>
          (case rls_update (Authenticated (user_id user)) (\<lambda>p. id' p = user_id user)
                  (apply_patch (profileData\<lparr>set_updated_at := Some now\<rparr>)) tbl of
             Inl err \<Rightarrow> (Returned (failure (message err)), tbl)
           | Inr (rows, tbl') \<Rightarrow>
               (case single' (Inr rows) of
                  Inl err \<Rightarrow> (Returned (failure (message err)), tbl')
                | Inr d \<Rightarrow> (Returned (succeeded d), tbl'))))"

subsection \<open>ensureSuperAdmin\<close>

definition ensureSuperAdmin_update :: "timestamp \<Rightarrow> profile \<Rightarrow> profile" where
  "ensureSuperAdmin_update now p =
     p\<lparr>role := Super_admin, email_verified := True, first_name := lit ''Super'',
       last_name := lit ''Admin'', organization_id := None, is_active := True,
       updated_at := now\<rparr>"

text \<open>
  The function returns nothing; its effect is the table. \<open>a\<close> is the credential of
  the client's requests at that moment.
\<close>

definition ensureSuperAdmin :: "env \<Rightarrow> actor \<Rightarrow> timestamp \<Rightarrow> profile list \<Rightarrow> profile list" where
  "ensureSuperAdmin e a now tbl =
     (if \<not> isSupabaseConfigured e then tbl
      else (case maybeSingle (rls_select a (\<lambda>p. email p = superadmin_email) tbl) of
        Inl checkError \<Rightarrow> tbl
      | Inr None \<Rightarrow> tbl
      | Inr (Some existingProfile) \<Rightarrow>
          if role existingProfile \<noteq> Super_admin then
            (case rls_update a (\<lambda>p. email p = superadmin_email)
                    (ensureSuperAdmin_update now) tbl of
               Inl updateError \<Rightarrow> tbl
             | Inr (rows, tbl') \<Rightarrow> tbl')
          else tbl))"

section \<open>Histories\<close>

text \<open>
  The procedures that write \<open>profiles\<close> on behalf of a principal, in any order: the
  trigger, the facade's sign-up, the facade's reconciliation and the migration's block.
  A procedure that fails leaves the table as it was.
\<close>

datatype op =
    Bootstrap auth_user timestamp
  | SignUp env signUp_args "auth_data reply" "uuid reply" timestamp
  | Reconcile env actor timestamp
  | Migrate "auth_user list" timestamp

fun run_op :: "store_cfg \<Rightarrow> op \<Rightarrow> profile list \<Rightarrow> profile list" where
  "run_op cfg (Bootstrap NEW now) tbl =
     (case handle_new_user cfg NEW now tbl of Inr (u, tbl') \<Rightarrow> tbl' | Inl e \<Rightarrow> tbl)"
| "run_op cfg (SignUp e args auth org now) tbl = snd (signUp cfg e args auth org now tbl)"
| "run_op cfg (Reconcile e a now) tbl = ensureSuperAdmin e a now tbl"
| "run_op cfg (Migrate users now) tbl =
     (case bootstrap_block users now tbl of Inr tbl' \<Rightarrow> tbl' | Inl e \<Rightarrow> tbl)"

fun run :: "store_cfg \<Rightarrow> op list \<Rightarrow> profile list \<Rightarrow> profile list" where
  "run cfg [] tbl = tbl"
| "run cfg (x # xs) tbl = run cfg xs (run_op cfg x tbl)"

section \<open>Sample data\<close>

text \<open>Rows, principals and settings for the concrete instances below.\<close>

definition example_row :: "uuid \<Rightarrow> ustring \<Rightarrow> user_role \<Rightarrow> uuid option \<Rightarrow> profile" where
  "example_row i e r g =
     \<lparr>id' = i, email = e, first_name = lit ''First'', last_name = lit ''Last'', role = r,
      organization_id = g, email_verified = False, is_active = False, last_login = None,
      created_at = 0, updated_at = 0\<rparr>"

definition example_user :: "uuid \<Rightarrow> ustring \<Rightarrow> auth_user" where
  "example_user i e =
     \<lparr>user_id = i, user_email = e, user_email_confirmed_at = None,
      user_first_name = None, user_last_name = None\<rparr>"

definition example_env :: env where
  "example_env =
     \<lparr>supabaseUrl = Some ''https://project.supabase.co'', supabaseAnonKey = Some ''anon-key''\<rparr>"

text \<open>A store with the policies of the migration and no other.\<close>

definition example_cfg :: store_cfg where
  "example_cfg = \<lparr>is_active_default = True, insert_policy = (\<lambda>a r. False)\<rparr>"

definition empty_patch :: patch where
  "empty_patch =
     \<lparr>set_id = None, set_email = None, set_first_name = None, set_last_name = None,
      set_role = None, set_organization_id = None, set_email_verified = None,
      set_is_active = None, set_last_login = None, set_created_at = None,
      set_updated_at = None\<rparr>"

definition example_args :: "ustring \<Rightarrow> ustring option \<Rightarrow> signUp_args" where
  "example_args e n =
     \<lparr>arg_email = e, arg_password = lit ''secret'', firstName = lit ''Ann'',
      lastName = lit ''Lee'', organizationName = n, industry = None, companySize = None\<rparr>"

definition example_auth :: "uuid \<Rightarrow> ustring \<Rightarrow> auth_data" where
  "example_auth i e = \<lparr>data_user = Some (example_user i e), data_session = True\<rparr>"

text \<open>
  A row of the reserved address that has drifted: role \<open>user\<close>, organization 7,
  unverified and inactive.
\<close>

definition drifted_row :: profile where
  "drifted_row = example_row 1 superadmin_email User (Some 7)"

text \<open>
  Four rows: ann, \<open>org_admin\<close> of organization 10; bob, \<open>user\<close> of organization 10; cat,
  \<open>user\<close> of organization 20; and a \<open>super_admin\<close>.
\<close>

definition example_table :: "profile list" where
  "example_table =
     [example_row 1 (lit ''ann@a.com'') Org_admin (Some 10),
      example_row 2 (lit ''bob@a.com'') User (Some 10),
      example_row 3 (lit ''cat@b.com'') User (Some 20),
      example_row 4 (lit ''root@w.com'') Super_admin None]"

section \<open>Strings\<close>

lemma lit_eq_iff [simp]: "lit s = lit t \<longleftrightarrow> s = t"
  by (simp add: lit_def inj_map_eq_map inj_def)

section \<open>Which statements the store refuses\<close>

lemma applicable_simps:
  "applicable c Anon = []"
  "applicable c Service_role = [Profiles_service_role_all]"
  "applicable Select (Authenticated uid)
     = [Profiles_select_own, Profiles_super_admin_select_all, Profiles_org_admin_select_org]"
  "applicable Update (Authenticated uid)
     = [Profiles_update_own, Profiles_super_admin_update_all]"
  "applicable Insert (Authenticated uid) = []"
  by (simp_all add: applicable_def policies_def)

lemma recursion_simps:
  "recursion cs Anon = False"
  "recursion cs Service_role = False"
  "recursion cs (Authenticated uid) = (Select \<in> set cs \<or> Update \<in> set cs)"
proof -
  show "recursion cs Anon = False" "recursion cs Service_role = False"
    by (simp_all add: recursion_def applicable_simps list_ex_iff)
  have "list_ex queries_profiles (applicable c (Authenticated uid)) = (c = Select \<or> c = Update)"
    for c
    by (cases c) (simp_all add: applicable_simps)
  then show "recursion cs (Authenticated uid) = (Select \<in> set cs \<or> Update \<in> set cs)"
    by (auto simp: recursion_def list_ex_iff)
qed

lemma allowed_simps:
  "allowed c Anon tbl r = False"
  "allowed c Service_role tbl r = True"
  by (simp_all add: allowed_def applicable_simps profiles_service_role_all_def)

text \<open>
  Every SELECT, UPDATE and upsert of an authenticated session is refused with 42P17;
  without a session no row is read or written through a policy of the migration; the
  service role reads and writes every row.
\<close>

lemma rls_select_simps:
  "rls_select (Authenticated uid) P tbl = Inl policy_recursion"
  "rls_select Anon P tbl = Inr []"
  "rls_select Service_role P tbl = Inr (filter P tbl)"
  by (simp_all add: rls_select_def recursion_simps allowed_simps)

lemma rls_update_simps:
  "rls_update (Authenticated uid) P f tbl = Inl policy_recursion"
  "rls_update Service_role P f tbl
     = (case sql_update P f tbl of Inl e \<Rightarrow> Inl e | Inr tbl' \<Rightarrow> Inr (map f (filter P tbl), tbl'))"
  by (simp_all add: rls_update_def recursion_simps allowed_simps list_ex_iff)

lemma rls_upsert_simps:
  "rls_upsert cfg (Authenticated uid) r f tbl = Inl policy_recursion"
  "rls_upsert cfg Anon r f tbl
     = (if insert_policy cfg Anon r \<and> \<not> list_ex (\<lambda>p. id' p = id' r) tbl
        then sql_insert r tbl else Inl rls_violation)"
  "rls_upsert cfg Service_role r f tbl = sql_insert_on_conflict_id r f tbl"
  by (auto simp: rls_upsert_def recursion_simps allowed_simps insert_check_def
      sql_insert_on_conflict_id_def list_ex_iff)

lemma select_by_id_simps:
  "select_by_id (Authenticated uid) x tbl = Inl policy_recursion"
  "select_by_id Anon x tbl = Inl not_single"
  by (simp_all add: select_by_id_def rls_select_simps)

section \<open>The store's constraints\<close>

lemma constraints_ok_append:
  "constraints_ok (tbl @ [r]) \<longleftrightarrow>
     constraints_ok tbl \<and> \<not> list_ex (\<lambda>p. id' p = id' r) tbl
     \<and> \<not> list_ex (\<lambda>p. email p = email r) tbl"
  by (auto simp: constraints_ok_def list_ex_iff image_iff)

lemma constraints_ok_map_keys:
  assumes "\<And>p. id' (g p) = id' p" "\<And>p. email (g p) = email p"
  shows "constraints_ok (map g tbl) = constraints_ok tbl"
  by (simp add: constraints_ok_def comp_def assms)

lemma sql_update_keeps_keys:
  assumes "constraints_ok tbl" "\<And>p. id' (f p) = id' p" "\<And>p. email (f p) = email p"
  shows "sql_update P f tbl = Inr (map (\<lambda>p. if P p then f p else p) tbl)"
proof -
  have "constraints_ok (map (\<lambda>p. if P p then f p else p) tbl) = constraints_ok tbl"
    by (rule constraints_ok_map_keys) (simp_all add: assms)
  then show ?thesis using assms(1) by (simp add: sql_update_def commit_def)
qed

lemma commit_Inr: "commit t = Inr t' \<Longrightarrow> constraints_ok t' \<and> t' = t"
  by (simp add: commit_def split: if_splits)

section \<open>The trigger on a principal without a row\<close>

lemma handle_new_user_values_sel:
  "id' (handle_new_user_values cfg NEW now) = user_id NEW"
  "email (handle_new_user_values cfg NEW now) = user_email NEW"
  "role (handle_new_user_values cfg NEW now)
     = (if user_email NEW = superadmin_email then Super_admin else User)"
  "organization_id (handle_new_user_values cfg NEW now) = None"
  by (simp_all add: handle_new_user_values_def handle_new_user_role_def)

lemma handle_new_user_fresh:
  assumes "constraints_ok tbl"
    and "\<not> list_ex (\<lambda>p. id' p = user_id NEW) tbl"
    and "\<not> list_ex (\<lambda>p. email p = user_email NEW) tbl"
  shows "handle_new_user cfg NEW now tbl = Inr (NEW, tbl @ [handle_new_user_values cfg NEW now])"
  using assms
  by (simp add: handle_new_user_def sql_insert_on_conflict_id_def sql_insert_def commit_def
      constraints_ok_append handle_new_user_values_sel)

lemma handle_new_user_returns:
  "\<exists>tbl'. handle_new_user cfg NEW now tbl = Inr (NEW, tbl')"
  by (simp add: handle_new_user_def split: sum.splits)


section \<open>One Profile row for each principal\<close>

lemma sql_update_inv:
  assumes "sql_update P f tbl = Inr t" "\<And>p. P p \<Longrightarrow> id' (f p) = id' p"
  shows "distinct (map id' t) \<and> id' ` set tbl \<subseteq> id' ` set t"
proof -
  have t: "distinct (map id' t)" "t = map (\<lambda>p. if P p then f p else p) tbl"
    using assms(1) commit_Inr by (auto simp: sql_update_def constraints_ok_def)
  have "map id' t = map id' tbl"
    unfolding t(2) using assms(2) by (induction tbl) auto
  then have "id' ` set t = id' ` set tbl"
    by (metis list.set_map)
  then show ?thesis using t(1) by simp
qed

lemma sql_insert_on_conflict_id_inv:
  assumes "sql_insert_on_conflict_id r f tbl = Inr t" "\<And>p. id' p = id' r \<Longrightarrow> id' (f p) = id' p"
  shows "distinct (map id' t) \<and> id' ` set tbl \<subseteq> id' ` set t"
proof (cases "list_ex (\<lambda>p. id' p = id' r) tbl")
  case True
  then have "sql_update (\<lambda>p. id' p = id' r) f tbl = Inr t"
    using assms(1) by (simp add: sql_insert_on_conflict_id_def)
  then show ?thesis using sql_update_inv assms(2) by blast
next
  case False
  then have "commit (tbl @ [r]) = Inr t"
    using assms(1) by (simp add: sql_insert_on_conflict_id_def sql_insert_def)
  then show ?thesis using commit_Inr by (fastforce simp: constraints_ok_def)
qed

lemma insert_select_inv:
  "distinct (map id' tbl) \<Longrightarrow> insert_select us now tbl = Inr t
     \<Longrightarrow> distinct (map id' t) \<and> id' ` set tbl \<subseteq> id' ` set t"
proof (induction us arbitrary: tbl)
  case Nil then show ?case by simp
next
  case (Cons u us)
  from Cons.prems(2) obtain t1 where
    1: "sql_insert_on_conflict_id (superadmin_values u now) (superadmin_conflict now) tbl = Inr t1"
    and 2: "insert_select us now t1 = Inr t"
    by (auto split: sum.splits)
  have "distinct (map id' t1) \<and> id' ` set tbl \<subseteq> id' ` set t1"
    using sql_insert_on_conflict_id_inv[OF 1] by (simp add: superadmin_conflict_def)
  then show ?case using Cons.IH[OF _ 2] by blast
qed

lemma run_op_inv:
  assumes "distinct (map id' tbl)"
  shows "distinct (map id' (run_op cfg x tbl)) \<and> id' ` set tbl \<subseteq> id' ` set (run_op cfg x tbl)"
proof (cases x)
  case (Bootstrap NEW now)
  show ?thesis
  proof (cases "sql_insert_on_conflict_id (handle_new_user_values cfg NEW now)
                  (handle_new_user_conflict NEW now) tbl")
    case (Inl e)
    then show ?thesis using assms Bootstrap by (simp add: handle_new_user_def)
  next
    case (Inr t)
    then have "run_op cfg x tbl = t" using Bootstrap by (simp add: handle_new_user_def)
    then show ?thesis
      using sql_insert_on_conflict_id_inv[OF Inr] by (simp add: handle_new_user_conflict_def)
  qed
next
  case (SignUp e args auth org now)
  have "snd (signUp cfg e args auth org now tbl) = tbl
      \<or> (\<exists>u oid a. let row = signUp_payload cfg args u oid now in
            rls_upsert cfg a row (signUp_merge row) tbl
              = Inr (snd (signUp cfg e args auth org now tbl)))"
    by (auto simp: signUp_def Let_def split: reply.splits option.splits sum.splits)
  then show ?thesis
  proof
    assume "snd (signUp cfg e args auth org now tbl) = tbl"
    then show ?thesis using assms SignUp by simp
  next
    assume "\<exists>u oid a. let row = signUp_payload cfg args u oid now in
            rls_upsert cfg a row (signUp_merge row) tbl
              = Inr (snd (signUp cfg e args auth org now tbl))"
    then obtain u oid a where
      "rls_upsert cfg a (signUp_payload cfg args u oid now)
          (signUp_merge (signUp_payload cfg args u oid now)) tbl
        = Inr (snd (signUp cfg e args auth org now tbl))"
      by (auto simp: Let_def)
    then have "sql_insert_on_conflict_id (signUp_payload cfg args u oid now)
          (signUp_merge (signUp_payload cfg args u oid now)) tbl
        = Inr (snd (signUp cfg e args auth org now tbl))"
      by (simp add: rls_upsert_def split: if_splits)
    from sql_insert_on_conflict_id_inv[OF this] show ?thesis
      using SignUp by (simp add: signUp_merge_def)
  qed
next
  case (Reconcile e a now)
  have "ensureSuperAdmin e a now tbl = tbl
      \<or> (\<exists>rows. rls_update a (\<lambda>p. email p = superadmin_email) (ensureSuperAdmin_update now) tbl
            = Inr (rows, ensureSuperAdmin e a now tbl))"
    by (auto simp: ensureSuperAdmin_def split: sum.splits option.splits)
  then show ?thesis
  proof
    assume "ensureSuperAdmin e a now tbl = tbl"
    then show ?thesis using assms Reconcile by simp
  next
    assume "\<exists>rows. rls_update a (\<lambda>p. email p = superadmin_email) (ensureSuperAdmin_update now) tbl
            = Inr (rows, ensureSuperAdmin e a now tbl)"
    then have "sql_update (\<lambda>r. email r = superadmin_email \<and> allowed Update a tbl r
                   \<and> allowed Select a tbl r)
                 (ensureSuperAdmin_update now) tbl = Inr (ensureSuperAdmin e a now tbl)"
      by (auto simp: rls_update_def Let_def split: if_splits sum.splits)
    from sql_update_inv[OF this] show ?thesis
      using Reconcile by (simp add: ensureSuperAdmin_update_def)
  qed
next
  case (Migrate users now)
  show ?thesis
  proof (cases "bootstrap_block users now tbl")
    case (Inl e)
    then show ?thesis using assms Migrate by simp
  next
    case (Inr t)
    have "distinct (map id' t) \<and> id' ` set tbl \<subseteq> id' ` set t"
    proof (cases "list_ex (\<lambda>p. email p = superadmin_email) tbl")
      case True
      then have "sql_update (\<lambda>p. email p = superadmin_email) (superadmin_update now) tbl = Inr t"
        using Inr by (simp add: bootstrap_block_def)
      from sql_update_inv[OF this] show ?thesis by (simp add: superadmin_update_def)
    next
      case False
      then have "insert_select (filter (\<lambda>u. user_email u = superadmin_email) users) now tbl = Inr t"
        using Inr by (simp add: bootstrap_block_def)
      then show ?thesis using insert_select_inv[OF assms] by blast
    qed
    then show ?thesis using Inr Migrate by simp
  qed
qed

lemma run_inv:
  "distinct (map id' tbl) \<Longrightarrow>
     distinct (map id' (run cfg ops tbl)) \<and> id' ` set tbl \<subseteq> id' ` set (run cfg ops tbl)"
proof (induction ops arbitrary: tbl)
  case Nil then show ?case by simp
next
  case (Cons x xs)
  have 1: "distinct (map id' (run_op cfg x tbl)) \<and> id' ` set tbl \<subseteq> id' ` set (run_op cfg x tbl)"
    using run_op_inv[OF Cons.prems] .
  then have 2: "distinct (map id' (run cfg xs (run_op cfg x tbl)))
      \<and> id' ` set (run_op cfg x tbl) \<subseteq> id' ` set (run cfg xs (run_op cfg x tbl))"
    using Cons.IH by blast
  from 1 2 have "id' ` set tbl \<subseteq> id' ` set (run cfg xs (run_op cfg x tbl))"
    by (meson order_trans)
  then show ?case using 2 by simp
qed

lemma count_key_le_1:
  "distinct (map f xs) \<Longrightarrow> length (filter (\<lambda>p. f p = x) xs) \<le> 1"
  by (induction xs) (auto simp: filter_empty_conv image_iff)

lemma count_key_1:
  "distinct (map f xs) \<Longrightarrow> x \<in> f ` set xs \<Longrightarrow> length (filter (\<lambda>p. f p = x) xs) = 1"
  using count_key_le_1[of f xs x]
  by (cases "filter (\<lambda>p. f p = x) xs") (auto simp: filter_empty_conv le_Suc_eq)

lemma bootstrap_creates:
  assumes "constraints_ok tbl"
    and "\<not> list_ex (\<lambda>r. id' r \<noteq> user_id P \<and> email r = user_email P) tbl"
  shows "user_id P \<in> id' ` set (run_op cfg (Bootstrap P now) tbl)"
proof (cases "list_ex (\<lambda>p. id' p = user_id P) tbl")
  case True
  then have "user_id P \<in> id' ` set tbl" by (force simp: list_ex_iff image_iff)
  moreover have "distinct (map id' tbl)" using assms(1) by (simp add: constraints_ok_def)
  ultimately show ?thesis using run_op_inv[of tbl cfg "Bootstrap P now"] by blast
next
  case False
  then have "\<not> list_ex (\<lambda>p. email p = user_email P) tbl"
    using assms(2) by (auto simp: list_ex_iff)
  then have "handle_new_user cfg P now tbl = Inr (P, tbl @ [handle_new_user_values cfg P now])"
    using handle_new_user_fresh[OF assms(1) False] by simp
  then show ?thesis by (simp add: handle_new_user_values_sel)
qed

text \<open>
  Claim C4, as amended. In a table whose ids are distinct (the primary key), after any
  sequence of runs of the trigger, of \<open>signUp\<close>, of \<open>ensureSuperAdmin\<close> and of the
  migration's block, at most one Profile row has a given id, and an id that has a row
  keeps exactly one. After the trigger has run for a principal \<open>P\<close>, exactly one row
  has \<open>P\<close>'s id, provided no row of another id holds \<open>P\<close>'s email (otherwise the insert
  fails, the trigger swallows the failure, and \<open>P\<close> has no row).
\<close>

theorem one_profile_per_principal:
  assumes "distinct (map id' tbl)"
  shows "length (filter (\<lambda>r. id' r = x) (run cfg ops tbl)) \<le> 1
       \<and> (list_ex (\<lambda>r. id' r = x) tbl
            \<longrightarrow> length (filter (\<lambda>r. id' r = x) (run cfg ops tbl)) = 1)
       \<and> (constraints_ok tbl
            \<and> \<not> list_ex (\<lambda>r. id' r \<noteq> user_id P \<and> email r = user_email P) tbl
            \<longrightarrow> length (filter (\<lambda>r. id' r = user_id P)
                          (run cfg (Bootstrap P now # ops) tbl)) = 1)"
proof (intro conjI impI)
  have inv: "distinct (map id' (run cfg ops tbl))"
    "id' ` set tbl \<subseteq> id' ` set (run cfg ops tbl)"
    using run_inv[OF assms] by auto
  show "length (filter (\<lambda>r. id' r = x) (run cfg ops tbl)) \<le> 1"
    using inv(1) by (rule count_key_le_1)
  assume "list_ex (\<lambda>r. id' r = x) tbl"
  then have "x \<in> id' ` set tbl" by (force simp: list_ex_iff image_iff)
  then have "x \<in> id' ` set (run cfg ops tbl)" using inv(2) by blast
  then show "length (filter (\<lambda>r. id' r = x) (run cfg ops tbl)) = 1"
    using inv(1) by (simp add: count_key_1)
next
  assume free: "constraints_ok tbl
      \<and> \<not> list_ex (\<lambda>r. id' r \<noteq> user_id P \<and> email r = user_email P) tbl"
  let ?t = "run_op cfg (Bootstrap P now) tbl"
  have ok: "distinct (map id' ?t)" using run_op_inv[OF assms] by blast
  have "user_id P \<in> id' ` set ?t" using bootstrap_creates free by blast
  then have "user_id P \<in> id' ` set (run cfg ops ?t)" using run_inv[OF ok] by blast
  moreover have "distinct (map id' (run cfg ops ?t))" using run_inv[OF ok] by blast
  ultimately show "length (filter (\<lambda>r. id' r = user_id P)
                          (run cfg (Bootstrap P now # ops) tbl)) = 1"
    by (simp add: count_key_1)
qed

text \<open>
  The theorem at an empty table: bob's first login, his sign-up, a reconciliation and
  the trigger again leave one row with his id.
\<close>

theorem one_profile_per_principal_witness:
  "constraints_ok []
   \<and> length (filter (\<lambda>r. id' r = user_id (example_user 1 (lit ''bob@co.com'')))
       (run example_cfg (Bootstrap (example_user 1 (lit ''bob@co.com'')) 3 #
     [SignUp example_env (example_args (lit ''bob@co.com'') None)
        (Ok (example_auth 1 (lit ''bob@co.com''))) (Ok 9) 4,
      Reconcile example_env (Authenticated 1) 5,
      Bootstrap (example_user 1 (lit ''bob@co.com'')) 6])
     [])) = 1"
proof -
  have pk: "distinct (map id' ([] :: profile list))" by simp
  have ok: "constraints_ok []" by (simp add: constraints_ok_def)
  have free: "constraints_ok []
      \<and> \<not> list_ex (\<lambda>r. id' r \<noteq> user_id (example_user 1 (lit ''bob@co.com''))
                  \<and> email r = user_email (example_user 1 (lit ''bob@co.com''))) []"
    using ok by simp
  from one_profile_per_principal[OF pk, where P = "example_user 1 (lit ''bob@co.com'')"
        and cfg = example_cfg and now = 3, THEN conjunct2, THEN conjunct2, THEN mp, OF free]
  have len: "length (filter (\<lambda>r. id' r = user_id (example_user 1 (lit ''bob@co.com'')))
       (run example_cfg (Bootstrap (example_user 1 (lit ''bob@co.com'')) 3 #
     [SignUp example_env (example_args (lit ''bob@co.com'') None)
        (Ok (example_auth 1 (lit ''bob@co.com''))) (Ok 9) 4,
      Reconcile example_env (Authenticated 1) 5,
      Bootstrap (example_user 1 (lit ''bob@co.com'')) 6])
     [])) = 1" .
  show ?thesis using ok len by (intro conjI)
qed

text \<open>
  Claim C4 as stated fails: when another row already holds bob's email, the same
  history leaves no row with bob's id.
\<close>

theorem no_profile_after_email_collision:
  "filter (\<lambda>r. id' r = 1) (run example_cfg
     [Bootstrap (example_user 1 (lit ''bob@co.com'')) 3,
      SignUp example_env (example_args (lit ''bob@co.com'') None)
        (Ok (example_auth 1 (lit ''bob@co.com''))) (Ok 9) 4,
      Reconcile example_env (Authenticated 1) 5,
      Bootstrap (example_user 1 (lit ''bob@co.com'')) 6]
     [example_row 2 (lit ''bob@co.com'') User None]) = []"
  by (simp add: handle_new_user_def sql_insert_on_conflict_id_def sql_insert_def
      commit_def constraints_ok_def handle_new_user_values_def handle_new_user_role_def
      signUp_def Let_def rls_upsert_simps rls_select_simps session_actor_def
      isSupabaseConfigured_def ensureSuperAdmin_def
      example_args_def example_auth_def example_user_def example_row_def example_env_def)

section \<open>Reconciliation of the super admin\<close>

lemma filter_key_single:
  "distinct (map f xs) \<Longrightarrow> r \<in> set xs \<Longrightarrow> filter (\<lambda>p. f p = f r) xs = [r]"
proof (induction xs)
  case Nil then show ?case by simp
next
  case (Cons x xs)
  show ?case
  proof (cases "x = r")
    case True
    then have "filter (\<lambda>p. f p = f r) xs = []"
      using Cons.prems by (auto simp: filter_empty_conv image_iff)
    then show ?thesis using True by simp
  next
    case False
    then have "f x \<noteq> f r" using Cons.prems by auto
    then show ?thesis using Cons False by simp
  qed
qed

lemma superadmin_lookup:
  assumes "constraints_ok tbl" "r \<in> set tbl" "email r = superadmin_email"
  shows "filter (\<lambda>p. email p = superadmin_email) tbl = [r]"
  using filter_key_single[of email tbl r] assms by (simp add: constraints_ok_def)

lemma ensureSuperAdmin_update_sel:
  "id' (ensureSuperAdmin_update now p) = id' p"
  "email (ensureSuperAdmin_update now p) = email p"
  "role (ensureSuperAdmin_update now p) = Super_admin"
  by (simp_all add: ensureSuperAdmin_update_def)

text \<open>
  What \<open>ensureSuperAdmin\<close> does to a table that holds the reserved address in row \<open>r\<close>:
  it writes only with the service role's credential. In a session its first query is
  refused and it returns at \<open>checkError\<close>; without a session the query finds no row.
\<close>

lemma ensureSuperAdmin_char:
  assumes "constraints_ok tbl" "r \<in> set tbl" "email r = superadmin_email"
  shows "ensureSuperAdmin e a now tbl
       = (if isSupabaseConfigured e \<and> a = Service_role \<and> role r \<noteq> Super_admin
          then map (\<lambda>p. if email p = superadmin_email then ensureSuperAdmin_update now p else p) tbl
          else tbl)"
proof (cases a)
  case Anon
  then show ?thesis by (simp add: ensureSuperAdmin_def rls_select_simps)
next
  case (Authenticated uid)
  then show ?thesis by (simp add: ensureSuperAdmin_def rls_select_simps)
next
  case Service_role
  have "sql_update (\<lambda>p. email p = superadmin_email) (ensureSuperAdmin_update now) tbl
      = Inr (map (\<lambda>p. if email p = superadmin_email then ensureSuperAdmin_update now p else p) tbl)"
    by (rule sql_update_keeps_keys[OF assms(1)]) (simp_all add: ensureSuperAdmin_update_sel)
  then show ?thesis
    using Service_role superadmin_lookup[OF assms]
    by (simp add: ensureSuperAdmin_def rls_select_simps rls_update_simps)
qed

lemma ensureSuperAdmin_idempotent:
  assumes "constraints_ok tbl" "r \<in> set tbl" "email r = superadmin_email"
  shows "ensureSuperAdmin e a now' (ensureSuperAdmin e a now tbl) = ensureSuperAdmin e a now tbl"
proof (cases "isSupabaseConfigured e \<and> a = Service_role \<and> role r \<noteq> Super_admin")
  case True
  let ?g = "\<lambda>p. if email p = superadmin_email then ensureSuperAdmin_update now p else p"
  have first: "ensureSuperAdmin e a now tbl = map ?g tbl"
    using True ensureSuperAdmin_char[OF assms] by simp
  have ok: "constraints_ok (map ?g tbl)"
    using assms(1) constraints_ok_map_keys[of ?g tbl] by (simp add: ensureSuperAdmin_update_sel)
  have "?g r \<in> set (map ?g tbl)" using assms(2) by simp
  moreover have "email (?g r) = superadmin_email" "role (?g r) = Super_admin"
    using assms(3) by (simp_all add: ensureSuperAdmin_update_sel)
  ultimately have "ensureSuperAdmin e a now' (map ?g tbl) = map ?g tbl"
    using ensureSuperAdmin_char[OF ok, of "?g r" e a now'] by simp
  then show ?thesis using first by simp
next
  case False
  then have "ensureSuperAdmin e a t tbl = tbl" for t
    using ensureSuperAdmin_char[OF assms, of e a t] by auto
  then show ?thesis by simp
qed

lemma superadmin_update_sel:
  "id' (superadmin_update now p) = id' p" "email (superadmin_update now p) = email p"
  by (simp_all add: superadmin_update_def)

lemma bootstrap_block_existing:
  assumes "constraints_ok tbl" "r \<in> set tbl" "email r = superadmin_email"
  shows "bootstrap_block users now tbl
       = Inr (map (\<lambda>p. if email p = superadmin_email then superadmin_update now p else p) tbl)"
proof -
  have "list_ex (\<lambda>p. email p = superadmin_email) tbl"
    using assms(2,3) by (auto simp: list_ex_iff)
  then show ?thesis
    using sql_update_keeps_keys[OF assms(1), of "superadmin_update now"]
    by (simp add: bootstrap_block_def superadmin_update_sel)
qed

lemma bootstrap_block_twice:
  assumes "constraints_ok tbl" "r \<in> set tbl" "email r = superadmin_email"
    and "bootstrap_block users now tbl = Inr tbl'"
  shows "bootstrap_block users' now' tbl' = bootstrap_block users' now' tbl"
proof -
  let ?g = "\<lambda>t p. if email p = superadmin_email then superadmin_update t p else p"
  have 1: "tbl' = map (?g now) tbl"
    using bootstrap_block_existing[OF assms(1-3)] assms(4) by simp
  have ok: "constraints_ok (map (?g now) tbl)"
    using assms(1) constraints_ok_map_keys[of "?g now" tbl] by (simp add: superadmin_update_sel)
  have "?g now r \<in> set (map (?g now) tbl)" using assms(2) by simp
  moreover have "email (?g now r) = superadmin_email"
    using assms(3) by (simp add: superadmin_update_sel)
  ultimately have "bootstrap_block users' now' (map (?g now) tbl)
                 = Inr (map (?g now') (map (?g now) tbl))"
    using bootstrap_block_existing[OF ok] by blast
  moreover have "?g now' (?g now p) = ?g now' p" for p
    by (simp add: superadmin_update_def)
  ultimately show ?thesis
    using 1 bootstrap_block_existing[OF assms(1-3)] by (simp add: comp_def)
qed

text \<open>
  Claim C2, as amended. Let the table hold the reserved address in one row. The
  migration's block sets that row's role to \<open>super_admin\<close>, its organization to null,
  \<open>email_verified\<close> and \<open>is_active\<close> to true and the names to Super and Admin from any
  state, in one run; on a row that is already so it changes \<open>updated_at\<close> only, and a
  second run leaves what the first wrote apart from \<open>updated_at\<close>. \<open>ensureSuperAdmin\<close>,
  run with the service role's credential, makes the same correction when the row's
  role is not \<open>super_admin\<close>; with any credential, when the role is already
  \<open>super_admin\<close> it changes nothing, whatever the other fields hold, and a second run
  changes nothing that the first left.
\<close>

theorem superadmin_reconciliation:
  assumes "constraints_ok tbl" "r \<in> set tbl" "email r = superadmin_email"
  shows "bootstrap_block users now tbl
           = Inr (map (\<lambda>p. if email p = superadmin_email then superadmin_update now p else p) tbl)
       \<and> superadmin_update now r
           = r\<lparr>role := Super_admin, organization_id := None, email_verified := True,
               first_name := lit ''Super'', last_name := lit ''Admin'', is_active := True,
               updated_at := now\<rparr>
       \<and> (role r = Super_admin \<and> organization_id r = None \<and> email_verified r \<and> is_active r
            \<and> first_name r = lit ''Super'' \<and> last_name r = lit ''Admin''
          \<longrightarrow> superadmin_update now r = r\<lparr>updated_at := now\<rparr>)
       \<and> (bootstrap_block users now tbl = Inr tbl'
          \<longrightarrow> bootstrap_block users now' tbl' = bootstrap_block users now' tbl)
       \<and> (isSupabaseConfigured e \<and> role r \<noteq> Super_admin
          \<longrightarrow> ensureSuperAdmin e Service_role now tbl
              = map (\<lambda>p. if email p = superadmin_email then ensureSuperAdmin_update now p else p)
                  tbl)
       \<and> ensureSuperAdmin_update now r = superadmin_update now r
       \<and> (role r = Super_admin \<longrightarrow> ensureSuperAdmin e a now tbl = tbl)
       \<and> ensureSuperAdmin e a now' (ensureSuperAdmin e a now tbl) = ensureSuperAdmin e a now tbl"
proof (intro conjI impI)
  show "bootstrap_block users now tbl
      = Inr (map (\<lambda>p. if email p = superadmin_email then superadmin_update now p else p) tbl)"
    by (rule bootstrap_block_existing[OF assms])
  show "superadmin_update now r
      = r\<lparr>role := Super_admin, organization_id := None, email_verified := True,
          first_name := lit ''Super'', last_name := lit ''Admin'', is_active := True,
          updated_at := now\<rparr>"
    by (simp add: superadmin_update_def)
  show "ensureSuperAdmin_update now r = superadmin_update now r"
    by (simp add: superadmin_update_def ensureSuperAdmin_update_def)
  show "ensureSuperAdmin e a now' (ensureSuperAdmin e a now tbl) = ensureSuperAdmin e a now tbl"
    by (rule ensureSuperAdmin_idempotent[OF assms])
next
  assume "role r = Super_admin \<and> organization_id r = None \<and> email_verified r \<and> is_active r
            \<and> first_name r = lit ''Super'' \<and> last_name r = lit ''Admin''"
  then show "superadmin_update now r = r\<lparr>updated_at := now\<rparr>"
    by (simp add: superadmin_update_def)
next
  assume "bootstrap_block users now tbl = Inr tbl'"
  then show "bootstrap_block users now' tbl' = bootstrap_block users now' tbl"
    by (rule bootstrap_block_twice[OF assms])
next
  assume "isSupabaseConfigured e \<and> role r \<noteq> Super_admin"
  then show "ensureSuperAdmin e Service_role now tbl
      = map (\<lambda>p. if email p = superadmin_email then ensureSuperAdmin_update now p else p) tbl"
    using ensureSuperAdmin_char[OF assms, of e Service_role now] by simp
next
  assume "role r = Super_admin"
  then show "ensureSuperAdmin e a now tbl = tbl"
    using ensureSuperAdmin_char[OF assms, of e a now] by simp
qed

text \<open>
  The theorem at a row of the reserved address that has role \<open>user\<close>, organization 7
  and both flags false, reconciled with the service role's credential.
\<close>

theorem superadmin_reconciliation_witness:
  "constraints_ok [drifted_row] \<and> email drifted_row = superadmin_email
   \<and> role drifted_row \<noteq> Super_admin
   \<and> ensureSuperAdmin example_env Service_role 5 [drifted_row]
     = [drifted_row\<lparr>role := Super_admin, organization_id := None, email_verified := True,
          first_name := lit ''Super'', last_name := lit ''Admin'', is_active := True,
          updated_at := 5\<rparr>]
   \<and> bootstrap_block [] 5 [drifted_row]
     = Inr (ensureSuperAdmin example_env Service_role 5 [drifted_row])"
proof -
  have ok: "constraints_ok [drifted_row]"
    by (simp add: constraints_ok_def)
  have mem: "drifted_row \<in> set [drifted_row]"
    by simp
  have em: "email drifted_row = superadmin_email"
    by (simp add: drifted_row_def example_row_def)
  have hyp: "isSupabaseConfigured example_env \<and> role drifted_row \<noteq> Super_admin"
    by (simp add: isSupabaseConfigured_def example_env_def drifted_row_def example_row_def)
  note th = superadmin_reconciliation[OF ok mem em, where e = example_env and now = 5
      and users = "[]"]
  have 1: "ensureSuperAdmin example_env Service_role 5 [drifted_row]
      = map (\<lambda>p. if email p = superadmin_email then ensureSuperAdmin_update 5 p else p)
          [drifted_row]"
    by (rule mp[OF th[THEN conjunct2, THEN conjunct2, THEN conjunct2, THEN conjunct2,
            THEN conjunct1] hyp])
  have 2: "bootstrap_block [] 5 [drifted_row]
      = Inr (map (\<lambda>p. if email p = superadmin_email then superadmin_update 5 p else p)
          [drifted_row])"
    by (rule th[THEN conjunct1])
  show ?thesis
    using ok em hyp 1 2
    by (simp add: ensureSuperAdmin_update_def superadmin_update_def)
qed

text \<open>
  Claim C2 as stated fails for \<open>ensureSuperAdmin\<close>: a row of the reserved address with
  role \<open>super_admin\<close> but organization 7, unverified and inactive, is read by the service
  role and left as it is; the update is guarded by the role alone.
\<close>

theorem ensureSuperAdmin_leaves_drifted_flags:
  "ensureSuperAdmin example_env Service_role 5
     [example_row 1 superadmin_email Super_admin (Some 7)]
     = [example_row 1 superadmin_email Super_admin (Some 7)]
   \<and> maybeSingle (rls_select Service_role (\<lambda>p. email p = superadmin_email)
        [example_row 1 superadmin_email Super_admin (Some 7)])
     = Inr (Some (example_row 1 superadmin_email Super_admin (Some 7)))
   \<and> organization_id (example_row 1 superadmin_email Super_admin (Some 7)) = Some 7
   \<and> \<not> is_active (example_row 1 superadmin_email Super_admin (Some 7))
   \<and> \<not> email_verified (example_row 1 superadmin_email Super_admin (Some 7))"
  by (simp add: ensureSuperAdmin_def rls_select_simps isSupabaseConfigured_def example_env_def
      example_row_def)

section \<open>The upsert on a row that exists\<close>

lemma handle_new_user_existing:
  assumes "list_ex (\<lambda>p. id' p = user_id NEW) tbl"
  shows "\<exists>tbl'. handle_new_user cfg NEW now tbl = Inr (NEW, tbl')
          \<and> (tbl' = tbl
              \<or> tbl' = map (\<lambda>p. if id' p = user_id NEW
                                then p\<lparr>email := user_email NEW,
                                       email_verified := (user_email_confirmed_at NEW \<noteq> None),
                                       updated_at := now\<rparr>
                                else p) tbl)
          \<and> map id' tbl' = map id' tbl \<and> map role tbl' = map role tbl
          \<and> map organization_id tbl' = map organization_id tbl
          \<and> map first_name tbl' = map first_name tbl \<and> map last_name tbl' = map last_name tbl
          \<and> map is_active tbl' = map is_active tbl \<and> map last_login tbl' = map last_login tbl
          \<and> map created_at tbl' = map created_at tbl"
  using assms
  by (auto simp: handle_new_user_def sql_insert_on_conflict_id_def sql_update_def commit_def
      handle_new_user_values_sel handle_new_user_conflict_def comp_def split: sum.splits)

lemma handle_new_user_existing_written:
  assumes "list_ex (\<lambda>p. id' p = user_id NEW) tbl"
    and "constraints_ok (map (\<lambda>p. if id' p = user_id NEW
                                then p\<lparr>email := user_email NEW,
                                       email_verified := (user_email_confirmed_at NEW \<noteq> None),
                                       updated_at := now\<rparr>
                                else p) tbl)"
  shows "handle_new_user cfg NEW now tbl
       = Inr (NEW, map (\<lambda>p. if id' p = user_id NEW
                                then p\<lparr>email := user_email NEW,
                                       email_verified := (user_email_confirmed_at NEW \<noteq> None),
                                       updated_at := now\<rparr>
                                else p) tbl)"
proof -
  let ?f = "\<lambda>p. p\<lparr>email := user_email NEW,
                email_verified := (user_email_confirmed_at NEW \<noteq> None), updated_at := now\<rparr>"
  have c: "handle_new_user_conflict NEW now = ?f"
    by (rule ext) (simp add: handle_new_user_conflict_def)
  have "sql_update (\<lambda>p. id' p = user_id NEW) ?f tbl
      = Inr (map (\<lambda>p. if id' p = user_id NEW then ?f p else p) tbl)"
    unfolding sql_update_def commit_def using assms(2) by (simp only: if_True)
  then show ?thesis
    unfolding handle_new_user_def sql_insert_on_conflict_id_def c
    by (simp only: handle_new_user_values_sel assms(1) if_True sum.case)
qed

lemma signUp_payload_sel:
  "id' (signUp_payload cfg args u oid now) = user_id u"
  "email (signUp_payload cfg args u oid now) = trim (arg_email args)"
  "role (signUp_payload cfg args u oid now)
     = (if trim (arg_email args) = superadmin_email then Super_admin
        else if oid \<noteq> None then Org_admin else User)"
  "organization_id (signUp_payload cfg args u oid now)
     = (if trim (arg_email args) = superadmin_email then None else oid)"
  by (simp_all add: signUp_payload_def signUp_role_def)

text \<open>
  The upsert of \<open>signUp\<close> never reaches a row that exists: in a session the statement
  is refused with 42P17, and without one no policy lets \<open>anon\<close> update a row.
\<close>

lemma signUp_existing:
  assumes "data_user authData = Some u" "list_ex (\<lambda>p. id' p = user_id u) tbl"
  shows "snd (signUp cfg e args (Ok authData) org now tbl) = tbl"
proof (cases "data_session authData")
  case True
  then have "session_actor authData = Authenticated (user_id u)"
    using assms(1) by (simp add: session_actor_def)
  then show ?thesis
    using assms(1) by (simp add: signUp_def Let_def rls_upsert_simps)
next
  case False
  then have "session_actor authData = Anon"
    using assms(1) by (simp add: session_actor_def)
  then show ?thesis
    using assms by (simp add: signUp_def Let_def rls_upsert_simps signUp_payload_sel)
qed

text \<open>
  Claim C3. When the trigger's upsert (\<open>handle_new_user\<close>, keyed by the principal's id)
  hits an existing Profile row, it writes \<open>email\<close>, \<open>email_verified\<close> and \<open>updated_at\<close>
  of that row and leaves every other field of every row, the role included, as it
  was; when the write fails (the new email is another row's) the table stays as it
  was. A run of \<open>signUp\<close> for a principal whose row exists leaves the table as it was,
  so it changes no stored role either.
\<close>

theorem upsert_on_existing_row:
  "(list_ex (\<lambda>p. id' p = user_id NEW) tbl \<longrightarrow>
      (\<exists>tbl'. handle_new_user cfg NEW now tbl = Inr (NEW, tbl')
          \<and> (tbl' = tbl
              \<or> tbl' = map (\<lambda>p. if id' p = user_id NEW
                                then p\<lparr>email := user_email NEW,
                                       email_verified := (user_email_confirmed_at NEW \<noteq> None),
                                       updated_at := now\<rparr>
                                else p) tbl)
          \<and> map id' tbl' = map id' tbl \<and> map role tbl' = map role tbl
          \<and> map organization_id tbl' = map organization_id tbl
          \<and> map first_name tbl' = map first_name tbl \<and> map last_name tbl' = map last_name tbl
          \<and> map is_active tbl' = map is_active tbl \<and> map last_login tbl' = map last_login tbl
          \<and> map created_at tbl' = map created_at tbl))
   \<and> (list_ex (\<lambda>p. id' p = user_id NEW) tbl
        \<and> constraints_ok (map (\<lambda>p. if id' p = user_id NEW
                                then p\<lparr>email := user_email NEW,
                                       email_verified := (user_email_confirmed_at NEW \<noteq> None),
                                       updated_at := now\<rparr>
                                else p) tbl)
      \<longrightarrow> handle_new_user cfg NEW now tbl
          = Inr (NEW, map (\<lambda>p. if id' p = user_id NEW
                                then p\<lparr>email := user_email NEW,
                                       email_verified := (user_email_confirmed_at NEW \<noteq> None),
                                       updated_at := now\<rparr>
                                else p) tbl))
   \<and> (data_user authData = Some u \<and> list_ex (\<lambda>p. id' p = user_id u) tbl
      \<longrightarrow> snd (signUp cfg e args (Ok authData) org now' tbl) = tbl)"
proof (intro conjI impI)
  assume "list_ex (\<lambda>p. id' p = user_id NEW) tbl"
  then show "\<exists>tbl'. handle_new_user cfg NEW now tbl = Inr (NEW, tbl')
          \<and> (tbl' = tbl
              \<or> tbl' = map (\<lambda>p. if id' p = user_id NEW
                                then p\<lparr>email := user_email NEW,
                                       email_verified := (user_email_confirmed_at NEW \<noteq> None),
                                       updated_at := now\<rparr>
                                else p) tbl)
          \<and> map id' tbl' = map id' tbl \<and> map role tbl' = map role tbl
          \<and> map organization_id tbl' = map organization_id tbl
          \<and> map first_name tbl' = map first_name tbl \<and> map last_name tbl' = map last_name tbl
          \<and> map is_active tbl' = map is_active tbl \<and> map last_login tbl' = map last_login tbl
          \<and> map created_at tbl' = map created_at tbl"
    by (rule handle_new_user_existing)
next
  assume "list_ex (\<lambda>p. id' p = user_id NEW) tbl
        \<and> constraints_ok (map (\<lambda>p. if id' p = user_id NEW
                                then p\<lparr>email := user_email NEW,
                                       email_verified := (user_email_confirmed_at NEW \<noteq> None),
                                       updated_at := now\<rparr>
                                else p) tbl)"
  then show "handle_new_user cfg NEW now tbl
          = Inr (NEW, map (\<lambda>p. if id' p = user_id NEW
                                then p\<lparr>email := user_email NEW,
                                       email_verified := (user_email_confirmed_at NEW \<noteq> None),
                                       updated_at := now\<rparr>
                                else p) tbl)"
    using handle_new_user_existing_written[of NEW tbl now cfg] by simp
next
  assume "data_user authData = Some u \<and> list_ex (\<lambda>p. id' p = user_id u) tbl"
  then show "snd (signUp cfg e args (Ok authData) org now' tbl) = tbl"
    using signUp_existing[of authData u tbl cfg e args org now'] by simp
qed

text \<open>
  The theorem at a stored \<open>org_admin\<close> row of bob, whose address at the authentication
  service has changed: the trigger's re-run writes the new address and keeps the role
  and the organization; the re-run of \<open>signUp\<close> without an organization, whose payload
  has role \<open>user\<close>, leaves the row as it is.
\<close>

theorem upsert_on_existing_row_witness:
  "handle_new_user example_cfg (example_user 1 (lit ''rob@co.com'')) 3
       [example_row 1 (lit ''bob@co.com'') Org_admin (Some 3)]
     = Inr (example_user 1 (lit ''rob@co.com''),
            [(example_row 1 (lit ''bob@co.com'') Org_admin (Some 3))
               \<lparr>email := lit ''rob@co.com'', email_verified := False, updated_at := 3\<rparr>])
   \<and> role (signUp_payload example_cfg (example_args (lit ''bob@co.com'') None)
        (example_user 1 (lit ''bob@co.com'')) None 4) = User
   \<and> snd (signUp example_cfg example_env (example_args (lit ''bob@co.com'') None)
          (Ok (example_auth 1 (lit ''bob@co.com''))) (Ok 9) 4
          [example_row 1 (lit ''bob@co.com'') Org_admin (Some 3)])
     = [example_row 1 (lit ''bob@co.com'') Org_admin (Some 3)]"
proof -
  let ?row = "example_row 1 (lit ''bob@co.com'') Org_admin (Some 3)"
  let ?NEW = "example_user 1 (lit ''rob@co.com'')"
  have hyp1: "list_ex (\<lambda>p. id' p = user_id ?NEW) [?row]
        \<and> constraints_ok (map (\<lambda>p. if id' p = user_id ?NEW
                                then p\<lparr>email := user_email ?NEW,
                                       email_verified := (user_email_confirmed_at ?NEW \<noteq> None),
                                       updated_at := 3\<rparr>
                                else p) [?row])"
    by (simp add: example_user_def example_row_def constraints_ok_def)
  have 1: "handle_new_user example_cfg ?NEW 3 [?row]
          = Inr (?NEW, map (\<lambda>p. if id' p = user_id ?NEW
                                then p\<lparr>email := user_email ?NEW,
                                       email_verified := (user_email_confirmed_at ?NEW \<noteq> None),
                                       updated_at := 3\<rparr>
                                else p) [?row])"
    by (rule mp[OF upsert_on_existing_row[where NEW = ?NEW and tbl = "[?row]"
            and cfg = example_cfg and now = 3, THEN conjunct2, THEN conjunct1] hyp1])
  have hyp2: "data_user (example_auth 1 (lit ''bob@co.com''))
                = Some (example_user 1 (lit ''bob@co.com''))
        \<and> list_ex (\<lambda>p. id' p = user_id (example_user 1 (lit ''bob@co.com''))) [?row]"
    by (simp add: example_auth_def example_user_def example_row_def)
  have 2: "snd (signUp example_cfg example_env (example_args (lit ''bob@co.com'') None)
          (Ok (example_auth 1 (lit ''bob@co.com''))) (Ok 9) 4 [?row]) = [?row]"
    by (rule mp[OF upsert_on_existing_row[where authData = "example_auth 1 (lit ''bob@co.com'')"
            and u = "example_user 1 (lit ''bob@co.com'')" and tbl = "[?row]"
            and cfg = example_cfg and e = example_env
            and args = "example_args (lit ''bob@co.com'') None" and org = "Ok 9" and now' = 4,
            THEN conjunct2, THEN conjunct2] hyp2])
  have 3: "role (signUp_payload example_cfg (example_args (lit ''bob@co.com'') None)
        (example_user 1 (lit ''bob@co.com'')) None 4) = User"
    by (simp add: signUp_payload_sel example_args_def trim_def lit_def is_space_def
        superadmin_email_def)
  show ?thesis
    using 1 2 3 by (simp add: example_user_def example_row_def)
qed

section \<open>The role that a sign-up derives and the role that is stored\<close>

lemma signUp_organizationId_Some:
  "signUp_organizationId name org = Some oid
     \<longleftrightarrow> (\<exists>n. name = Some n \<and> trim n \<noteq> [] \<and> org = Ok oid)"
  by (auto simp: signUp_organizationId_def split: option.splits reply.splits)

text \<open>
  The trigger inserts, for a principal without a row, the role that its email
  derives, without organization; the payload of \<open>signUp\<close> carries \<open>super_admin\<close>
  without organization for the reserved address, and otherwise \<open>org_admin\<close> exactly
  when this sign-up created an organization.
\<close>

lemma handle_new_user_derives_role:
  assumes "constraints_ok tbl"
    and "\<not> list_ex (\<lambda>p. id' p = user_id NEW) tbl"
    and "\<not> list_ex (\<lambda>p. email p = user_email NEW) tbl"
  shows "\<exists>r. handle_new_user cfg NEW now tbl = Inr (NEW, tbl @ [r])
            \<and> id' r = user_id NEW
            \<and> role r = (if user_email NEW = superadmin_email then Super_admin else User)
            \<and> organization_id r = None"
  using handle_new_user_fresh[OF assms] by (simp add: handle_new_user_values_sel)

text \<open>
  In a session the upsert of \<open>signUp\<close> is refused, whatever the table holds, so the
  payload never reaches the table.
\<close>

lemma signUp_in_session:
  assumes "data_session authData"
  shows "snd (signUp cfg e args (Ok authData) org now tbl) = tbl"
proof (cases "data_user authData")
  case None
  then show ?thesis by (simp add: signUp_def)
next
  case (Some u)
  then have "session_actor authData = Authenticated (user_id u)"
    using assms by (simp add: session_actor_def)
  then show ?thesis
    using Some by (simp add: signUp_def Let_def rls_upsert_simps)
qed

text \<open>With the policies of the migration and no other, no run of \<open>signUp\<close> writes.\<close>

lemma signUp_writes_nothing:
  assumes "\<And>r. \<not> insert_policy cfg Anon r"
  shows "snd (signUp cfg e args auth org now tbl) = tbl"
proof -
  have "rls_upsert cfg a r f tbl = Inl policy_recursion \<or> rls_upsert cfg a r f tbl = Inl rls_violation"
    if "a \<noteq> Service_role" for a r f
    using that assms by (cases a) (simp_all add: rls_upsert_simps)
  moreover have "session_actor d \<noteq> Service_role" for d
    by (simp add: session_actor_def split: option.splits)
  ultimately have err: "\<exists>err. rls_upsert cfg (session_actor d) r f tbl = Inl err" for d r f
    by metis
  show ?thesis
  proof (cases "\<exists>d u. auth = Ok d \<and> data_user d = Some u \<and> isSupabaseConfigured e")
    case True
    then obtain d u where a: "auth = Ok d" "data_user d = Some u" "isSupabaseConfigured e"
      by auto
    let ?row = "signUp_payload cfg args u (signUp_organizationId (organizationName args) org) now"
    from err[of d ?row "signUp_merge ?row"]
    obtain x where "rls_upsert cfg (session_actor d) ?row (signUp_merge ?row) tbl = Inl x" ..
    then show ?thesis
      using a by (simp add: signUp_def Let_def)
  next
    case False
    then show ?thesis
      by (auto simp: signUp_def Let_def split: reply.splits option.splits)
  qed
qed

text \<open>
  Claim C1 at the input where the code departs from it: ann signs up with the
  organization Acme, which is created with id 7. The trigger has inserted her row
  with role \<open>user\<close>; the facade derives \<open>org_admin\<close> and organization 7 for its payload,
  but its upsert runs in her session and the store refuses it, so the stored Profile
  keeps role \<open>user\<close> and no organization.
\<close>

theorem signUp_org_admin_not_stored:
  "signUp_organizationId (Some (lit ''Acme'')) (Ok 7) = Some 7
   \<and> map (\<lambda>p. (id' p, role p, organization_id p))
       [signUp_payload example_cfg (example_args (lit ''ann@co.com'') (Some (lit ''Acme'')))
          (example_user 1 (lit ''ann@co.com'')) (Some 7) 4]
     = [(1, Org_admin, Some 7)]
   \<and> rls_upsert example_cfg (session_actor (example_auth 1 (lit ''ann@co.com'')))
        (signUp_payload example_cfg (example_args (lit ''ann@co.com'') (Some (lit ''Acme'')))
          (example_user 1 (lit ''ann@co.com'')) (Some 7) 4)
        (signUp_merge
          (signUp_payload example_cfg (example_args (lit ''ann@co.com'') (Some (lit ''Acme'')))
            (example_user 1 (lit ''ann@co.com'')) (Some 7) 4))
        (run example_cfg [Bootstrap (example_user 1 (lit ''ann@co.com'')) 3] [])
     = Inl policy_recursion
   \<and> map (\<lambda>p. (id' p, role p, organization_id p))
       (run example_cfg
          [Bootstrap (example_user 1 (lit ''ann@co.com'')) 3,
           SignUp example_env (example_args (lit ''ann@co.com'') (Some (lit ''Acme'')))
             (Ok (example_auth 1 (lit ''ann@co.com''))) (Ok 7) 4]
          [])
     = [(1, User, None)]"
proof (intro conjI)
  show "signUp_organizationId (Some (lit ''Acme'')) (Ok 7) = Some 7"
    by (simp add: signUp_organizationId_def trim_def lit_def is_space_def)
  show "map (\<lambda>p. (id' p, role p, organization_id p))
       [signUp_payload example_cfg (example_args (lit ''ann@co.com'') (Some (lit ''Acme'')))
          (example_user 1 (lit ''ann@co.com'')) (Some 7) 4]
     = [(1, Org_admin, Some 7)]"
    by (simp add: signUp_payload_sel example_args_def example_user_def trim_def lit_def
        is_space_def superadmin_email_def)
  show "rls_upsert example_cfg (session_actor (example_auth 1 (lit ''ann@co.com'')))
        (signUp_payload example_cfg (example_args (lit ''ann@co.com'') (Some (lit ''Acme'')))
          (example_user 1 (lit ''ann@co.com'')) (Some 7) 4)
        (signUp_merge
          (signUp_payload example_cfg (example_args (lit ''ann@co.com'') (Some (lit ''Acme'')))
            (example_user 1 (lit ''ann@co.com'')) (Some 7) 4))
        (run example_cfg [Bootstrap (example_user 1 (lit ''ann@co.com'')) 3] [])
     = Inl policy_recursion"
    by (simp add: session_actor_def example_auth_def rls_upsert_simps)
  have "snd (signUp example_cfg example_env
          (example_args (lit ''ann@co.com'') (Some (lit ''Acme'')))
          (Ok (example_auth 1 (lit ''ann@co.com''))) (Ok 7) 4 tbl) = tbl" for tbl
    by (rule signUp_in_session) (simp add: example_auth_def)
  then show "map (\<lambda>p. (id' p, role p, organization_id p))
       (run example_cfg
          [Bootstrap (example_user 1 (lit ''ann@co.com'')) 3,
           SignUp example_env (example_args (lit ''ann@co.com'') (Some (lit ''Acme'')))
             (Ok (example_auth 1 (lit ''ann@co.com''))) (Ok 7) 4]
          [])
     = [(1, User, None)]"
    by (simp add: handle_new_user_def sql_insert_on_conflict_id_def sql_insert_def commit_def
        constraints_ok_def handle_new_user_values_def handle_new_user_role_def
        example_user_def superadmin_email_def)
qed

section \<open>Failures of the bootstrap and the lazy recovery\<close>

lemma signUp_success:
  "isSupabaseConfigured e \<Longrightarrow>
     fst (signUp cfg e args (Ok authData) org now tbl) = Returned (succeeded authData)"
  by (simp add: signUp_def Let_def split: option.splits sum.splits)

text \<open>
  \<open>getCurrentProfile\<close> queries in the session of the user it found, so its first
  query is refused with 42P17, which is not the code \<open>PGRST116\<close> of its recovery
  branch: on every input it returns \<open>null\<close> and writes nothing.
\<close>

lemma getCurrentProfile_returns_null:
  "getCurrentProfile cfg e session now tbl = (None, tbl)"
  by (simp add: getCurrentProfile_def Let_def select_by_id_simps policy_recursion_def
      split: option.splits)

text \<open>
  Claim C7 at the input where the code departs from it: another row holds bob's
  email, so the trigger's insert fails and is swallowed, and bob has no Profile. His
  next fetch with \<open>getCurrentProfile\<close> does not recover it: the query for his row is
  refused with 42P17, the function returns \<open>null\<close>, and no row is inserted. The same
  happens on an empty table.
\<close>

theorem getCurrentProfile_no_recovery:
  "handle_new_user example_cfg (example_user 1 (lit ''bob@co.com'')) 3
       [example_row 2 (lit ''bob@co.com'') User None]
     = Inr (example_user 1 (lit ''bob@co.com''), [example_row 2 (lit ''bob@co.com'') User None])
   \<and> select_by_id (Authenticated 1) 1 [example_row 2 (lit ''bob@co.com'') User None]
     = Inl policy_recursion
   \<and> getCurrentProfile example_cfg example_env (Ok (Some (example_user 1 (lit ''bob@co.com''))))
       4 [example_row 2 (lit ''bob@co.com'') User None]
     = (None, [example_row 2 (lit ''bob@co.com'') User None])
   \<and> getCurrentProfile example_cfg example_env (Ok (Some (example_user 1 (lit ''bob@co.com''))))
       4 []
     = (None, [])"
  by (simp add: handle_new_user_def sql_insert_on_conflict_id_def sql_insert_def commit_def
      constraints_ok_def handle_new_user_values_def handle_new_user_role_def
      example_user_def example_row_def example_env_def isSupabaseConfigured_def
      getCurrentProfile_def getCurrentUser_def Let_def select_by_id_simps policy_recursion_def)

section \<open>The facade's results\<close>

text \<open>
  Five of the six operations return a result on every path; \<open>resetPassword\<close> does so
  once the client is configured.
\<close>

lemma facade_returns:
  "\<exists>r. fst (signUp cfg e args auth org now tbl) = Returned r"
  "\<exists>r. fst (signIn e email_arg password auth now tbl) = Returned r"
  "\<exists>r. signOut out = Returned r"
  "\<exists>r. updatePassword newPassword upd = Returned r"
  "\<exists>r. fst (updateProfile e session profileData now tbl) = Returned r"
  "isSupabaseConfigured e \<Longrightarrow> \<exists>r. resetPassword e email_arg rst = Returned r"
  by (auto simp: signUp_def signIn_def signOut_def updatePassword_def updateProfile_def
      resetPassword_def Let_def split: reply.splits option.splits sum.splits prod.splits)

text \<open>
  Claim C9 at the input where the code departs from it: with no Supabase settings,
  \<open>resetPassword\<close> raises to its caller instead of returning \<open>{success: false, error}\<close>.
\<close>

theorem resetPassword_unconfigured_raises:
  "resetPassword \<lparr>supabaseUrl = None, supabaseAnonKey = None\<rparr> (lit ''user@example.com'') (Ok ())
     = Raised ''Authentication service not configured''"
  by (simp add: resetPassword_def isSupabaseConfigured_def)

section \<open>What the policies state and what the store answers\<close>

text \<open>
  The policies, read as the predicates they state for a session of \<open>uid\<close>: the own
  row, every row for a \<open>super_admin\<close>, and the rows of the own organization for an
  \<open>org_admin\<close> or \<open>manager\<close>.
\<close>

lemma allowed_Select_Authenticated:
  "allowed Select (Authenticated uid) tbl r
     \<longleftrightarrow> profiles_select_own (Some uid) r \<or> profiles_super_admin_select_all (Some uid) tbl r
         \<or> profiles_org_admin_select_org (Some uid) tbl r"
  by (simp add: allowed_def applicable_simps)

lemma allowed_Update_Authenticated:
  "allowed Update (Authenticated uid) tbl r
     \<longleftrightarrow> profiles_update_own (Some uid) r \<or> profiles_super_admin_update_all (Some uid) tbl r"
  by (simp add: allowed_def applicable_simps)

text \<open>Every call of \<open>updateProfile\<close> with a signed-in user is refused.\<close>

lemma updateProfile_refused:
  assumes "getCurrentUser e session = Some user"
  shows "updateProfile e session profileData now tbl
       = (Returned (failure (message policy_recursion)), tbl)"
  using assms by (simp add: updateProfile_def rls_update_simps)

text \<open>
  Claim C5 at the input where the code departs from it: bob, role \<open>user\<close>, in his own
  session. The policies as stated admit his own row, for select and for update, and
  no other row; but each of his statements also expands the policies that query
  \<open>profiles\<close>, and the store refuses it with 42P17: the select of his own row, the
  update of his own row, and the select of cat's row alike.
\<close>

theorem own_row_select_refused:
  "list_ex (\<lambda>p. id' p = 2 \<and> role p = User \<and> allowed Select (Authenticated 2) example_table p
              \<and> allowed Update (Authenticated 2) example_table p) example_table
   \<and> map id' (filter (allowed Select (Authenticated 2) example_table) example_table) = [2]
   \<and> select_by_id (Authenticated 2) 2 example_table = Inl policy_recursion
   \<and> rls_update (Authenticated 2) (\<lambda>p. id' p = 2) (\<lambda>p. p\<lparr>first_name := lit ''Bob''\<rparr>)
        example_table
     = Inl policy_recursion
   \<and> select_by_id (Authenticated 2) 3 example_table = Inl policy_recursion"
  by (simp add: allowed_Select_Authenticated allowed_Update_Authenticated
      profiles_select_own_def profiles_update_own_def profiles_super_admin_select_all_def
      profiles_super_admin_update_all_def profiles_org_admin_select_org_def
      example_table_def example_row_def select_by_id_simps rls_update_simps)

text \<open>
  Claim C6 at the input where the code departs from it: ann, \<open>org_admin\<close> of
  organization 10, and the \<open>super_admin\<close>. The policies as stated give ann the rows of
  organization 10 and the \<open>super_admin\<close> every row; the store refuses the select of
  either with 42P17, so neither reads any row.
\<close>

theorem org_scoped_select_refused:
  "map id' (filter (allowed Select (Authenticated 1) example_table) example_table) = [1, 2]
   \<and> map id' (filter (allowed Select (Authenticated 4) example_table) example_table)
     = [1, 2, 3, 4]
   \<and> rls_select (Authenticated 1) (\<lambda>p. organization_id p = Some 10) example_table
     = Inl policy_recursion
   \<and> rls_select (Authenticated 4) (\<lambda>p. True) example_table = Inl policy_recursion"
  by (simp add: allowed_Select_Authenticated
      profiles_select_own_def profiles_super_admin_select_all_def
      profiles_org_admin_select_org_def
      example_table_def example_row_def rls_select_simps)

text \<open>
  Claim C10 at the input where the code departs from it: bob, in his own session,
  sets his role to \<open>super_admin\<close> through \<open>updateProfile\<close>. The policy
  \<open>profiles_update_own\<close> as stated admits his row before and after the write, and the
  facade forwards the field; but the store refuses the statement with 42P17, the
  facade returns the failure, and the table is as it was.
\<close>

theorem updateProfile_escalation_refused:
  "allowed Update (Authenticated 2) example_table
       (example_row 2 (lit ''bob@a.com'') User (Some 10))
   \<and> allowed Update (Authenticated 2) example_table
       (apply_patch (empty_patch\<lparr>set_role := Some Super_admin, set_updated_at := Some 9\<rparr>)
          (example_row 2 (lit ''bob@a.com'') User (Some 10)))
   \<and> role (apply_patch (empty_patch\<lparr>set_role := Some Super_admin, set_updated_at := Some 9\<rparr>)
          (example_row 2 (lit ''bob@a.com'') User (Some 10))) = Super_admin
   \<and> updateProfile example_env (Ok (Some (example_user 2 (lit ''bob@a.com''))))
       (empty_patch\<lparr>set_role := Some Super_admin\<rparr>) 9 example_table
     = (Returned (failure (message policy_recursion)), example_table)"
  by (simp add: allowed_Update_Authenticated profiles_update_own_def
      apply_patch_def empty_patch_def col_def example_row_def
      updateProfile_def getCurrentUser_def isSupabaseConfigured_def example_env_def
      rls_update_simps)

section \<open>A denied read and a missing row\<close>

lemma select_by_id_absent:
  "\<not> list_ex (\<lambda>p. id' p = x) tbl \<Longrightarrow> select_by_id Service_role x tbl = Inl not_single"
  by (simp add: select_by_id_def rls_select_simps list_ex_iff filter_empty_conv)

text \<open>
  Claim C8, as amended. When the store evaluates a select and the policies deny a
  row to the actor, the row is left out of the answer and no error is raised: the
  answer is the one the actor gets from the table without that row. A read of the
  row by its id with \<open>.single()\<close> fails with \<open>PGRST116\<close>, as for a row that does not
  exist, and a read with \<open>.maybeSingle()\<close> gives \<open>null\<close>.
\<close>

theorem denied_read_as_missing:
  assumes "\<not> recursion [Select] a" "\<not> allowed Select a tbl r"
  shows "rls_select a P (removeAll r tbl) = rls_select a P tbl
       \<and> select_by_id a (id' r) tbl = Inl not_single
       \<and> select_by_id a (id' r) (removeAll r tbl) = select_by_id a (id' r) tbl
       \<and> maybeSingle (rls_select a (\<lambda>p. email p = email r) tbl) = Inr None"
proof (cases a)
  case Anon
  then show ?thesis by (simp add: rls_select_simps select_by_id_simps)
next
  case (Authenticated uid)
  then show ?thesis using assms(1) by (simp add: recursion_simps)
next
  case Service_role
  then show ?thesis using assms(2) by (simp add: allowed_simps)
qed

text \<open>
  The theorem at a request without session that reads cat's row: no policy of the
  migration is for \<open>anon\<close>.
\<close>

theorem denied_read_as_missing_witness:
  "\<not> recursion [Select] Anon
   \<and> \<not> allowed Select Anon example_table (example_row 3 (lit ''cat@b.com'') User (Some 20))
   \<and> select_by_id Anon (id' (example_row 3 (lit ''cat@b.com'') User (Some 20))) example_table
     = Inl not_single
   \<and> maybeSingle (rls_select Anon
        (\<lambda>p. email p = email (example_row 3 (lit ''cat@b.com'') User (Some 20))) example_table)
     = Inr None"
proof -
  have 1: "\<not> recursion [Select] Anon"
    by (simp add: recursion_simps)
  have 2: "\<not> allowed Select Anon example_table (example_row 3 (lit ''cat@b.com'') User (Some 20))"
    by (simp add: allowed_simps)
  note th = denied_read_as_missing[OF 1 2]
  show ?thesis
    using 1 2 th[THEN conjunct2, THEN conjunct1] th[THEN conjunct2, THEN conjunct2, THEN conjunct2]
    by (intro conjI)
qed

text \<open>
  Claim C8 as stated fails: a request without session that reads cat's row, which
  exists and is denied, gets \<open>PGRST116\<close>, the outcome of the same read on a table
  without any row.
\<close>

theorem denied_read_same_as_not_found:
  "list_ex (\<lambda>p. id' p = 3) example_table
   \<and> \<not> allowed Select Anon example_table (example_row 3 (lit ''cat@b.com'') User (Some 20))
   \<and> select_by_id Anon 3 example_table = Inl not_single
   \<and> select_by_id Anon 3 [] = Inl not_single
   \<and> code not_single = ''PGRST116''"
  by (simp add: example_table_def example_row_def allowed_simps select_by_id_simps
      not_single_def)

end
